theory Spec2Isabelle
  imports Main "HOL-Library.Multiset" "HOL-Library.Sublist"
begin

section \<open>The schema (models.py)\<close>

text \<open>
  The four mapped classes of \<^verbatim>\<open>models.py\<close> are records, one field per column. A
  nullable column is an \<open>option\<close>; a column declared \<^verbatim>\<open>nullable=False\<close> or part of
  a primary key is not. Field names shared by two tables are written qualified
  (\<open>Order.order_id\<close>, \<open>OrderProduct.order_id\<close>).
\<close>

datatype date = Date int int int
  \<comment> \<open>\<^verbatim>\<open>datetime.date(year, month, day)\<close>\<close>

datatype timestamp = Timestamp date nat
  \<comment> \<open>a \<^verbatim>\<open>TIMESTAMP\<close> value: a date and the microseconds since midnight\<close>

definition timestamp_of_date :: "date \<Rightarrow> timestamp" where
  \<comment> \<open>a date stored in a \<^verbatim>\<open>TIMESTAMP\<close> column is that date at midnight\<close>
  "timestamp_of_date d = Timestamp d 0"

record User =
  telegram_id :: int
  full_name :: string
  username :: "string option"
  language_code :: string
  created_at :: "timestamp option"
  referrer_id :: "int option"

record Order =
  order_id :: int
  user_id :: int
  created_at :: "timestamp option"

record Product =
  product_id :: int
  title :: string
  description :: "string option"
  created_at :: "timestamp option"

record OrderProduct =
  order_id :: int
  product_id :: int
  quantity :: int

text \<open>Column types: what a value must satisfy to be stored.\<close>

definition BIGINT :: "int \<Rightarrow> bool" where
  "BIGINT n \<longleftrightarrow> - (2 ^ 63) \<le> n \<and> n < 2 ^ 63"

definition Integer :: "int \<Rightarrow> bool" where
  "Integer n \<longleftrightarrow> - (2 ^ 31) \<le> n \<and> n < 2 ^ 31"

definition VARCHAR :: "nat \<Rightarrow> string \<Rightarrow> bool" where
  "VARCHAR n s \<longleftrightarrow> length s \<le> n"

section \<open>Database and session\<close>

text \<open>
  The rows of the four tables, in the order they were inserted. A database is its stored
  (committed) rows and the two sequences behind the \<^verbatim>\<open>autoincrement\<close> keys; each sequence
  holds the last value it handed out. Sequences are not transactional: a value taken inside
  a transaction stays taken when the transaction is rolled back.
\<close>

record tables =
  users :: "User list"
  orders :: "Order list"
  products :: "Product list"
  order_products :: "OrderProduct list"

record database =
  stored :: tables
  orders_order_id_seq :: int
  products_product_id_seq :: int

record product_info =
  info_title :: string
  info_description :: "string option"

text \<open>What a session was asked to do, in the order it was asked.\<close>

datatype stmt =
    INSERT_users int string "string option" "string option" "timestamp option" "int option"
  | INSERT_orders int
  | INSERT_products "product_info list"
  | INSERT_order_products int "(int \<times> int) list"
  | SELECT_users_with_referrer
  | SELECT_all_users_and_some_referrers
  | SELECT_some_users_and_all_referrers
  | SELECT_users_orders
  | SELECT_all_users_products
  | GET_users int
  | COMMIT

text \<open>What the program shows: the sections the scripts print, the text the bot replies.\<close>

datatype shown =
    Users_with_referrer "(string \<times> string) list"
  | All_users_and_their_referrers "(string \<times> string option) list"
  | Some_users_and_all_their_referrers "(string option \<times> string) list"
  | Users_orders "(int \<times> string) list"
  | Product_ids "int list"
  | Users_products "(int \<times> string \<times> string) list"
  | Orders "(string \<times> int) list"
  | Reply string

text \<open>
  A session works in one transaction: \<open>txn\<close> is what that transaction sees, the stored
  rows plus its own uncommitted changes. \<open>now\<close> is the database's current time in this
  transaction, the value of the \<^verbatim>\<open>func.now()\<close> server default. The state threaded
  through a run also carries \<open>log\<close>, the statements the session was given, and \<open>out\<close>,
  what the program has shown so far.
\<close>

record session =
  db :: database
  txn :: tables
  log :: "stmt list"
  now :: timestamp
  out :: "shown list"

definition session_pool :: "database \<Rightarrow> timestamp \<Rightarrow> session" where
  \<comment> \<open>\<^verbatim>\<open>session_pool()\<close>: a new session on the database\<close>
  "session_pool d t = \<lparr>db = d, txn = stored d, log = [], now = t, out = []\<rparr>"

definition commit :: "session \<Rightarrow> session" where
  "commit s = s\<lparr>db := (db s)\<lparr>stored := txn s\<rparr>, log := log s @ [COMMIT]\<rparr>"

definition close :: "session \<Rightarrow> database" where
  \<comment> \<open>leaving the \<^verbatim>\<open>with\<close> block: what was not committed is rolled back\<close>
  "close s = db s"

datatype error =
    UniqueViolation
  | ForeignKeyViolation
  | NotNullViolation
  | StringDataRightTruncation
  | NumericValueOutOfRange
  | StatementError
  | AttributeError

type_synonym 'a op = "session \<Rightarrow> (error + 'a) \<times> session"

definition and_then :: "'a op \<Rightarrow> ('a \<Rightarrow> 'b op) \<Rightarrow> 'b op" where
  \<comment> \<open>one statement after another; an exception ends the sequence\<close>
  "and_then m f s = (case m s of (Inl e, s') \<Rightarrow> (Inl e, s') | (Inr x, s') \<Rightarrow> f x s')"

definition return :: "'a \<Rightarrow> 'a op" where
  "return x s = (Inr x, s)"

definition raise :: "error \<Rightarrow> 'a op" where
  "raise e s = (Inl e, s)"

definition print :: "shown \<Rightarrow> unit op" where
  "print x s = (Inr (), s\<lparr>out := out s @ [x]\<rparr>)"

definition session_commit :: "unit op" where
  "session_commit s = (Inr (), commit s)"

definition execute_select :: "stmt \<Rightarrow> (tables \<Rightarrow> 'a) \<Rightarrow> 'a op" where
  "execute_select q rows s = (Inr (rows (txn s)), s\<lparr>log := log s @ [q]\<rparr>)"

section \<open>Joins\<close>

definition inner_join :: "'a list \<Rightarrow> 'b list \<Rightarrow> ('a \<Rightarrow> 'b \<Rightarrow> bool) \<Rightarrow> ('a \<times> 'b) list" where
  "inner_join xs ys on = concat (map (\<lambda>x. map (Pair x) (filter (on x) ys)) xs)"

definition left_outer_join ::
  "'a list \<Rightarrow> 'b list \<Rightarrow> ('a \<Rightarrow> 'b \<Rightarrow> bool) \<Rightarrow> ('a \<times> 'b option) list" where
  "left_outer_join xs ys on =
     concat (map (\<lambda>x. if filter (on x) ys = [] then [(x, None)]
                       else map (\<lambda>y. (x, Some y)) (filter (on x) ys)) xs)"

section \<open>The synchronous queries (Part8 main.py)\<close>

text \<open>
  Each \<^verbatim>\<open>select\<close> is a function from the tables to its rows. In the three referrer
  queries \<open>u\<close> is a row of \<^verbatim>\<open>User\<close> and \<open>r\<close> a row of the alias \<^verbatim>\<open>Referrer\<close>; the
  \<^verbatim>\<open>ON\<close> clause \<^verbatim>\<open>Referrer.telegram_id == User.referrer_id\<close> is not true of a user
  whose \<^verbatim>\<open>referrer_id\<close> is NULL.
\<close>

definition users_with_referrer :: "tables \<Rightarrow> (string \<times> string) list" where
  "users_with_referrer t =
     map (\<lambda>(u, r). (full_name u, full_name r))
       (inner_join (users t) (users t) (\<lambda>u r. referrer_id u = Some (telegram_id r)))"

definition all_users_and_some_referrers :: "tables \<Rightarrow> (string \<times> string option) list" where
  "all_users_and_some_referrers t =
     map (\<lambda>(u, r). (full_name u, map_option full_name r))
       (left_outer_join (users t) (users t) (\<lambda>u r. referrer_id u = Some (telegram_id r)))"

definition some_users_and_all_referrers :: "tables \<Rightarrow> (string option \<times> string) list" where
  "some_users_and_all_referrers t =
     map (\<lambda>(r, u). (map_option full_name u, full_name r))
       (left_outer_join (users t) (users t) (\<lambda>r u. referrer_id u = Some (telegram_id r)))"

definition users_orders :: "tables \<Rightarrow> (int \<times> string) list" where
  \<comment> \<open>\<^verbatim>\<open>.join(User)\<close>: the \<^verbatim>\<open>ON\<close> clause is the one foreign key from orders to users\<close>
  "users_orders t =
     map (\<lambda>(ord, u). (Order.order_id ord, full_name u))
       (inner_join (orders t) (users t) (\<lambda>ord u. telegram_id u = user_id ord))"

definition all_users_products :: "tables \<Rightarrow> (int \<times> string \<times> string) list" where
  "all_users_products t =
     map (\<lambda>(((item, p), ord), u). (Order.order_id ord, title p, full_name u))
       (inner_join
         (inner_join
           (inner_join (order_products t) (products t)
             (\<lambda>item p. Product.product_id p = OrderProduct.product_id item))
           (orders t) (\<lambda>(item, p) ord. Order.order_id ord = OrderProduct.order_id item))
         (users t) (\<lambda>((item, p), ord) u. telegram_id u = user_id ord))"

definition select_users_with_referrer :: "(string \<times> string) list op" where
  "select_users_with_referrer = execute_select SELECT_users_with_referrer users_with_referrer"

definition select_all_users_and_some_referrers :: "(string \<times> string option) list op" where
  "select_all_users_and_some_referrers =
     execute_select SELECT_all_users_and_some_referrers all_users_and_some_referrers"

definition select_some_users_and_all_referrers :: "(string option \<times> string) list op" where
  "select_some_users_and_all_referrers =
     execute_select SELECT_some_users_and_all_referrers some_users_and_all_referrers"

definition show_users_orders :: "(int \<times> string) list op" where
  "show_users_orders = execute_select SELECT_users_orders users_orders"

definition show_all_users_products :: "(int \<times> string \<times> string) list op" where
  "show_all_users_products = execute_select SELECT_all_users_products all_users_products"

section \<open>The inserts (Part8 main.py)\<close>

definition nullable :: "('a \<Rightarrow> bool) \<Rightarrow> 'a option \<Rightarrow> bool" where
  \<comment> \<open>NULL passes every type and foreign-key check\<close>
  "nullable P v = (case v of None \<Rightarrow> True | Some x \<Rightarrow> P x)"

text \<open>
  \<^verbatim>\<open>INSERT INTO users\<close> of one row. The values must fit the column types, the columns
  declared \<^verbatim>\<open>nullable=False\<close> must have a value, the primary key must be new, and a
  referrer must be a user (the new row counts: the foreign key is checked when the
  statement ends).
\<close>

definition insert_into_users ::
  "int \<Rightarrow> string \<Rightarrow> string option \<Rightarrow> string option \<Rightarrow> timestamp option \<Rightarrow> int option
     \<Rightarrow> tables \<Rightarrow> error + tables" where
  "insert_into_users tid name uname lang created rid t =
     (if \<not> (BIGINT tid \<and> nullable BIGINT rid) then Inl NumericValueOutOfRange
      else if \<not> (VARCHAR 255 name \<and> nullable (VARCHAR 255) uname \<and> nullable (VARCHAR 10) lang)
        then Inl StringDataRightTruncation
      else case lang of
        None \<Rightarrow> Inl NotNullViolation
      | Some l \<Rightarrow>
          if tid \<in> telegram_id ` set (users t) then Inl UniqueViolation
          else if \<not> nullable (\<lambda>r. r = tid \<or> r \<in> telegram_id ` set (users t)) rid
            then Inl ForeignKeyViolation
          else Inr (t\<lparr>users := users t @
                 [\<lparr>telegram_id = tid, full_name = name, username = uname, language_code = l,
                   User.created_at = created, referrer_id = rid\<rparr>]\<rparr>))"

definition execute_insert :: "stmt \<Rightarrow> (tables \<Rightarrow> error + tables) \<Rightarrow> unit op" where
  "execute_insert q ins s =
     (case ins (txn s) of
        Inl e \<Rightarrow> (Inl e, s\<lparr>log := log s @ [q]\<rparr>)
      | Inr t \<Rightarrow> (Inr (), s\<lparr>txn := t, log := log s @ [q]\<rparr>))"

definition create_user ::
  "int \<Rightarrow> string \<Rightarrow> string option \<Rightarrow> string \<Rightarrow> date \<Rightarrow> int option \<Rightarrow> unit op" where
  "create_user tid name uname lang created rid =
     execute_insert
       (INSERT_users tid name uname (Some lang) (Some (timestamp_of_date created)) rid)
       (insert_into_users tid name uname (Some lang) (Some (timestamp_of_date created)) rid)"

text \<open>
  \<^verbatim>\<open>INSERT INTO orders (user_id) ... RETURNING order_id\<close>: the key is the next value of
  the sequence, \<^verbatim>\<open>created_at\<close> the server default. The sequence keeps the value it
  handed out when the row is then refused.
\<close>

definition insert_into_orders :: "int \<Rightarrow> int \<Rightarrow> timestamp \<Rightarrow> tables \<Rightarrow> error + tables" where
  "insert_into_orders oid uid t0 t =
     (if oid \<in> Order.order_id ` set (orders t) then Inl UniqueViolation
      else if uid \<notin> telegram_id ` set (users t) then Inl ForeignKeyViolation
      else Inr (t\<lparr>orders := orders t @
             [\<lparr>Order.order_id = oid, user_id = uid, Order.created_at = Some t0\<rparr>]\<rparr>))"

definition create_new_order_for_user :: "int \<Rightarrow> int op" where
  "create_new_order_for_user uid s =
     (let oid = orders_order_id_seq (db s) + 1;
          s1 = s\<lparr>log := log s @ [INSERT_orders uid]\<rparr> in
      if \<not> (BIGINT uid \<and> Integer oid) then (Inl NumericValueOutOfRange, s1)
      else
        let s2 = s1\<lparr>db := (db s1)\<lparr>orders_order_id_seq := oid\<rparr>\<rparr> in
        case insert_into_orders oid uid (now s) (txn s) of
          Inl e \<Rightarrow> (Inl e, s2)
        | Inr t \<Rightarrow> (Inr oid, s2\<lparr>txn := t\<rparr>))"

text \<open>
  \<^verbatim>\<open>insert(Product).values(products_info).returning(Product.product_id)\<close>. A non-empty
  list is one multi-row \<^verbatim>\<open>INSERT\<close>: the rows take consecutive values of the sequence
  in the order of the list, and the keys come back in that order. \<^verbatim>\<open>values([])\<close> is not
  a multi-row insert: SQLAlchemy reads an empty sequence as no column values and renders
  \<^verbatim>\<open>INSERT INTO products DEFAULT VALUES\<close>, a single row without a title, which the
  \<^verbatim>\<open>nullable=False\<close> of \<^verbatim>\<open>title\<close> refuses.
\<close>

definition new_product :: "timestamp \<Rightarrow> int \<times> product_info \<Rightarrow> Product" where
  "new_product t0 = (\<lambda>(pid, i).
     \<lparr>Product.product_id = pid, title = info_title i, description = info_description i,
      Product.created_at = Some t0\<rparr>)"

definition create_new_products :: "product_info list \<Rightarrow> int list op" where
  "create_new_products products_info s =
     (let n = int (length products_info);
          lastval = products_product_id_seq (db s);
          ids = map (\<lambda>k. lastval + 1 + int k) [0 ..< length products_info];
          taken = Product.product_id ` set (products (txn s));
          s1 = s\<lparr>log := log s @ [INSERT_products products_info]\<rparr> in
      if products_info = [] then
        (if Integer (lastval + 1)
         then (Inl NotNullViolation, s1\<lparr>db := (db s1)\<lparr>products_product_id_seq := lastval + 1\<rparr>\<rparr>)
         else (Inl NumericValueOutOfRange, s1))
      else if \<not> list_all (\<lambda>i. VARCHAR 255 (info_title i) \<and>
                                nullable (VARCHAR 3000) (info_description i)) products_info
        then (Inl StringDataRightTruncation, s1)
      else if \<not> Integer (lastval + n) then (Inl NumericValueOutOfRange, s1)
      else if \<not> list_all (\<lambda>k. k \<notin> taken) ids
        then (Inl UniqueViolation,
              s1\<lparr>db := (db s1)\<lparr>products_product_id_seq :=
                      lastval + 1 + int (length (takeWhile (\<lambda>k. k \<notin> taken) ids))\<rparr>\<rparr>)
      else (Inr ids,
            s1\<lparr>db := (db s1)\<lparr>products_product_id_seq := lastval + n\<rparr>,
                txn := (txn s)\<lparr>products := products (txn s) @
                         map (new_product (now s)) (zip ids products_info)\<rparr>\<rparr>))"

text \<open>
  \<^verbatim>\<open>session.execute(stmt, product_data)\<close> with the two \<^verbatim>\<open>bindparam\<close>s: one row per
  entry of \<^verbatim>\<open>product_data\<close>, an entry being the pair of its \<^verbatim>\<open>product_id\<close> and its
  \<^verbatim>\<open>quantity\<close>. With an empty list no parameters are bound at all, and the statement is
  refused for its unbound \<^verbatim>\<open>product_id\<close>.
\<close>

definition insert_into_order_products :: "OrderProduct list \<Rightarrow> tables \<Rightarrow> error + tables" where
  "insert_into_order_products rows t =
     (let key = (\<lambda>r. (OrderProduct.order_id r, OrderProduct.product_id r)) in
      if \<not> list_all (\<lambda>r. Integer (OrderProduct.order_id r) \<and>
                            Integer (OrderProduct.product_id r) \<and> Integer (quantity r)) rows
        then Inl NumericValueOutOfRange
      else if \<not> (distinct (map key rows) \<and>
                  list_all (\<lambda>r. key r \<notin> key ` set (order_products t)) rows)
        then Inl UniqueViolation
      else if \<not> list_all (\<lambda>r. OrderProduct.order_id r \<in> Order.order_id ` set (orders t) \<and>
                  OrderProduct.product_id r \<in> Product.product_id ` set (products t)) rows
        then Inl ForeignKeyViolation
      else Inr (t\<lparr>order_products := order_products t @ rows\<rparr>))"

definition add_products_to_order :: "int \<Rightarrow> (int \<times> int) list \<Rightarrow> unit op" where
  "add_products_to_order oid product_data =
     (if product_data = []
      then (\<lambda>s. (Inl StatementError, s\<lparr>log := log s @ [INSERT_order_products oid []]\<rparr>))
      else execute_insert (INSERT_order_products oid product_data)
             (insert_into_order_products
               (map (\<lambda>(pid, q). \<lparr>OrderProduct.order_id = oid, product_id = pid, quantity = q\<rparr>)
                  product_data)))"

section \<open>The synchronous driver (Part8 main.py)\<close>

definition main_session :: "unit op" where
  \<comment> \<open>the body of the \<^verbatim>\<open>with session_pool() as session\<close> block\<close>
  "main_session =
     and_then (create_user 1 ''John Doe'' (Some ''johnny'') ''en'' (Date 2020 1 1) None) (\<lambda>_.
     and_then (create_user 2 ''Jane Doe'' (Some ''jane'') ''en'' (Date 2020 1 2) (Some 1)) (\<lambda>_.
     and_then select_users_with_referrer (\<lambda>users_with_referrer.
     and_then (print (Users_with_referrer users_with_referrer)) (\<lambda>_.
     and_then select_all_users_and_some_referrers (\<lambda>all_users_and_referrers.
     and_then (print (All_users_and_their_referrers all_users_and_referrers)) (\<lambda>_.
     and_then select_some_users_and_all_referrers (\<lambda>some_users_and_all_referrers.
     and_then (print (Some_users_and_all_their_referrers some_users_and_all_referrers)) (\<lambda>_.
     and_then (create_new_order_for_user 1) (\<lambda>order_id.
     and_then show_users_orders (\<lambda>users_orders.
     and_then (print (Users_orders users_orders)) (\<lambda>_.
     and_then (create_new_products
                 [\<lparr>info_title = ''Product 1'', info_description = Some ''Description 1''\<rparr>,
                  \<lparr>info_title = ''Product 2'', info_description = Some ''Description 2''\<rparr>,
                  \<lparr>info_title = ''Product 3'', info_description = Some ''Description 3''\<rparr>])
       (\<lambda>product_ids.
     and_then (print (Product_ids product_ids)) (\<lambda>_.
     and_then (add_products_to_order order_id (map (\<lambda>product_id. (product_id, 1)) product_ids))
       (\<lambda>_.
     and_then show_all_users_products (\<lambda>users_products.
     print (Users_products users_products))))))))))))))))"

definition main :: "database \<Rightarrow> timestamp \<Rightarrow> (error + unit) \<times> stmt list \<times> shown list \<times> database" where
  \<comment> \<open>the whole run: open the session, run the block, leave it; nothing commits\<close>
  "main d t = (case main_session (session_pool d t) of (r, s) \<Rightarrow> (r, log s, out s, close s))"

section \<open>The asynchronous script (Part9 main.py)\<close>

definition user_orders :: "tables \<Rightarrow> (int \<times> string) list" where
  \<comment> \<open>\<^verbatim>\<open>select(Order.order_id, User.full_name).join(User)\<close>, as written in Part9\<close>
  "user_orders t =
     map (\<lambda>(ord, u). (Order.order_id ord, full_name u))
       (inner_join (orders t) (users t) (\<lambda>ord u. telegram_id u = user_id ord))"

definition async_main_session :: "(int \<times> string) list op" where
  \<comment> \<open>the body of the \<^verbatim>\<open>async with\<close> block; its value is \<^verbatim>\<open>orders\<close>\<close>
  "async_main_session =
     and_then (execute_select SELECT_users_orders user_orders) (\<lambda>orders.
     and_then session_commit (\<lambda>_.
     return orders))"

definition async_main ::
  "database \<Rightarrow> timestamp \<Rightarrow> (error + unit) \<times> stmt list \<times> shown list \<times> database" where
  "async_main d t =
     (case and_then async_main_session
             (\<lambda>orders. print (Orders (map (\<lambda>(oid, name). (name, oid)) orders)))
             (session_pool d t) of
        (r, s) \<Rightarrow> (r, log s, out s, close s))"

section \<open>The bot's start handler (Part10 handlers/user.py)\<close>

record Message =
  from_user_id :: int
  from_user_full_name :: string
  from_user_username :: "string option"
  from_user_language_code :: "string option"

definition get :: "int \<Rightarrow> User option op" where
  \<comment> \<open>\<^verbatim>\<open>session.get(User, key)\<close>: the row with that primary key, or \<^verbatim>\<open>None\<close>\<close>
  "get k s = (Inr (find (\<lambda>u. telegram_id u = k) (users (txn s))),
              s\<lparr>log := log s @ [GET_users k]\<rparr>)"

text \<open>
  Modelled from the spec: \<^verbatim>\<open>create_user\<close> of
  \<^verbatim>\<open>tgbot.infrastucture.database.functions.users\<close> and the \<^verbatim>\<open>User\<close> model it writes
  are not among the sources. The spec has it insert the sender identifier as primary key
  with the display name, the handle and the language preference, into a users table of
  the schema above; the handler passes no creation time, so the column takes the
  database's current time, and no referrer.
\<close>

definition tgbot_create_user ::
  "int \<Rightarrow> string \<Rightarrow> string option \<Rightarrow> string option \<Rightarrow> unit op" where
  "tgbot_create_user tid name uname lang s =
     execute_insert (INSERT_users tid name uname lang (Some (now s)) None)
       (insert_into_users tid name uname lang (Some (now s)) None) s"

definition py_str :: "('a \<Rightarrow> string) \<Rightarrow> 'a option \<Rightarrow> string" where
  \<comment> \<open>how an f-string shows a value that may be \<^verbatim>\<open>None\<close>\<close>
  "py_str show v = (case v of None \<Rightarrow> ''None'' | Some x \<Rightarrow> show x)"

definition user_info :: "(timestamp \<Rightarrow> string) \<Rightarrow> User \<Rightarrow> string" where
  "user_info str_timestamp user =
     full_name user @ '' (@'' @ py_str (\<lambda>x. x) (username user) @ '').\<newline>'' @
     ''Language: '' @ language_code user @ ''.\<newline>'' @
     ''Created at: '' @ py_str str_timestamp (User.created_at user) @ ''.''"

text \<open>
  The handler. \<open>str_timestamp\<close> is Python's \<^verbatim>\<open>str\<close> of a \<^verbatim>\<open>datetime\<close>. When the second
  \<^verbatim>\<open>session.get\<close> finds no row, \<^verbatim>\<open>user.full_name\<close> is an attribute of \<^verbatim>\<open>None\<close>.
\<close>

definition user_start :: "(timestamp \<Rightarrow> string) \<Rightarrow> Message \<Rightarrow> unit op" where
  "user_start str_timestamp message =
     and_then (get (from_user_id message)) (\<lambda>user.
     and_then (case user of
                 None \<Rightarrow>
                   and_then (tgbot_create_user (from_user_id message)
                               (from_user_full_name message) (from_user_username message)
                               (from_user_language_code message)) (\<lambda>_.
                   session_commit)
               | Some _ \<Rightarrow> return ()) (\<lambda>_.
     and_then (get (from_user_id message)) (\<lambda>user.
     case user of
       None \<Rightarrow> raise AttributeError
     | Some user \<Rightarrow>
         print (Reply (''Hello, user. \<newline>'' @ ''Your info is here: \<newline>\<newline>'' @
                       user_info str_timestamp user)))))"

text \<open>The sender's values can be stored in a row of the users table.\<close>

definition storable :: "Message \<Rightarrow> bool" where
  "storable m \<longleftrightarrow>
     BIGINT (from_user_id m) \<and> VARCHAR 255 (from_user_full_name m) \<and>
     nullable (VARCHAR 255) (from_user_username m) \<and>
     (case from_user_language_code m of None \<Rightarrow> False | Some l \<Rightarrow> VARCHAR 10 l)"

text \<open>
  Modelled from the spec: the dispatcher that calls the handler is not among the sources.
  The spec has each invocation receive its own database session; two invocations in
  sequence are two sessions on the database, the second opened on what the first left.
\<close>

definition start_twice ::
  "(timestamp \<Rightarrow> string) \<Rightarrow> Message \<Rightarrow> Message \<Rightarrow> database \<Rightarrow> timestamp \<Rightarrow> timestamp
     \<Rightarrow> ((error + unit) \<times> session) \<times> ((error + unit) \<times> session)" where
  "start_twice str_timestamp m1 m2 d t1 t2 =
     (let r1 = user_start str_timestamp m1 (session_pool d t1);
          r2 = user_start str_timestamp m2 (session_pool (close (snd r1)) t2)
      in (r1, r2))"

section \<open>Deleting rows under the declared \<^verbatim>\<open>ondelete\<close> rules (models.py)\<close>



text \<open>The keys are unique and every foreign key names an existing row.\<close>

definition primary_keys :: "tables \<Rightarrow> bool" where
  "primary_keys t \<longleftrightarrow>
     distinct (map telegram_id (users t)) \<and>
     distinct (map Order.order_id (orders t)) \<and>
     distinct (map Product.product_id (products t)) \<and>
     distinct (map (\<lambda>r. (OrderProduct.order_id r, OrderProduct.product_id r)) (order_products t))"

definition foreign_keys :: "tables \<Rightarrow> bool" where
  "foreign_keys t \<longleftrightarrow>
     list_all (\<lambda>u. nullable (\<lambda>r. r \<in> telegram_id ` set (users t)) (referrer_id u)) (users t) \<and>
     list_all (\<lambda>ord. user_id ord \<in> telegram_id ` set (users t)) (orders t) \<and>
     list_all (\<lambda>r. OrderProduct.order_id r \<in> Order.order_id ` set (orders t) \<and>
                    OrderProduct.product_id r \<in> Product.product_id ` set (products t))
       (order_products t)"


section \<open>The reference scenario\<close>

text \<open>
  The rows the driver inserts for its two users, a third user who also names user 1 as
  referrer, the states built from them, and two messages of a sender the bot has not seen.
\<close>

definition user_1 :: User where
  "user_1 = \<lparr>telegram_id = 1, full_name = ''John Doe'', username = Some ''johnny'',
              language_code = ''en'', User.created_at = Some (Timestamp (Date 2020 1 1) 0),
              referrer_id = None\<rparr>"

definition user_2 :: User where
  "user_2 = \<lparr>telegram_id = 2, full_name = ''Jane Doe'', username = Some ''jane'',
              language_code = ''en'', User.created_at = Some (Timestamp (Date 2020 1 2) 0),
              referrer_id = Some 1\<rparr>"

definition user_3 :: User where
  "user_3 = \<lparr>telegram_id = 3, full_name = ''Jim Doe'', username = None,
              language_code = ''en'', User.created_at = Some (Timestamp (Date 2020 1 3) 0),
              referrer_id = Some 1\<rparr>"

definition empty_database :: database where
  "empty_database =
     \<lparr>stored = \<lparr>users = [], orders = [], products = [], order_products = []\<rparr>,
      orders_order_id_seq = 0, products_product_id_seq = 0\<rparr>"

definition database_of_users :: "User list \<Rightarrow> database" where
  "database_of_users us = empty_database\<lparr>stored := (stored empty_database)\<lparr>users := us\<rparr>\<rparr>"

definition noon :: timestamp where
  "noon = Timestamp (Date 2020 1 4) 43200000000"

definition three_products :: "product_info list" where
  "three_products =
     [\<lparr>info_title = ''Product 1'', info_description = Some ''Description 1''\<rparr>,
      \<lparr>info_title = ''Product 2'', info_description = Some ''Description 2''\<rparr>,
      \<lparr>info_title = ''Product 3'', info_description = Some ''Description 3''\<rparr>]"

definition scenario_tables :: "timestamp \<Rightarrow> tables" where
  \<comment> \<open>the rows the driver has inserted by its last statement, on an empty database at time \<open>t\<close>\<close>
  "scenario_tables t =
     \<lparr>users = [user_1, user_2],
      orders = [\<lparr>Order.order_id = 1, user_id = 1, Order.created_at = Some t\<rparr>],
      products = map (new_product t) (zip [1, 2, 3] three_products),
      order_products =
        [\<lparr>OrderProduct.order_id = 1, product_id = 1, quantity = 1\<rparr>,
         \<lparr>OrderProduct.order_id = 1, product_id = 2, quantity = 1\<rparr>,
         \<lparr>OrderProduct.order_id = 1, product_id = 3, quantity = 1\<rparr>]\<rparr>"

definition session_with_order :: session where
  \<comment> \<open>a session that has inserted the two users and an order of user 1, and no product yet\<close>
  "session_with_order =
     \<lparr>db = empty_database\<lparr>orders_order_id_seq := 1\<rparr>,
      txn = \<lparr>users = [user_1, user_2],
             orders = [\<lparr>Order.order_id = 1, user_id = 1, Order.created_at = Some noon\<rparr>],
             products = [], order_products = []\<rparr>,
      log = [], now = noon, out = []\<rparr>"

definition message_of_ann :: Message where
  "message_of_ann = \<lparr>from_user_id = 42, from_user_full_name = ''Ann Lee'',
                      from_user_username = Some ''ann'', from_user_language_code = Some ''en''\<rparr>"

definition message_without_language :: Message where
  "message_without_language = message_of_ann\<lparr>from_user_language_code := None\<rparr>"

section \<open>Consistent databases, and what a run leaves\<close>

text \<open>
  A database as the statements of this repository leave it: keys unique, foreign keys
  valid, and each sequence at or past every key it has generated.
\<close>

definition consistent :: "database \<Rightarrow> bool" where
  "consistent d \<longleftrightarrow>
     primary_keys (stored d) \<and> foreign_keys (stored d) \<and>
     0 \<le> orders_order_id_seq d \<and> 0 \<le> products_product_id_seq d \<and>
     list_all (\<lambda>ord. Order.order_id ord \<le> orders_order_id_seq d) (orders (stored d)) \<and>
     list_all (\<lambda>p. Product.product_id p \<le> products_product_id_seq d) (products (stored d))"

text \<open>The rows the driver's transaction sees after its last insert, on database \<open>d\<close>.\<close>

definition after_main :: "database \<Rightarrow> timestamp \<Rightarrow> tables" where
  "after_main d t =
     (let oid = orders_order_id_seq d + 1; lastval = products_product_id_seq d in
      \<lparr>users = users (stored d) @ [user_1, user_2],
       orders = orders (stored d) @
         [\<lparr>Order.order_id = oid, user_id = 1, Order.created_at = Some t\<rparr>],
       products = products (stored d) @
         map (new_product t) (zip [lastval + 1, lastval + 2, lastval + 3] three_products),
       order_products = order_products (stored d) @
         [\<lparr>OrderProduct.order_id = oid, product_id = lastval + 1, quantity = 1\<rparr>,
          \<lparr>OrderProduct.order_id = oid, product_id = lastval + 2, quantity = 1\<rparr>,
          \<lparr>OrderProduct.order_id = oid, product_id = lastval + 3, quantity = 1\<rparr>]\<rparr>)"

text \<open>
  The statements of the driver, given the order identifier and the product identifiers the
  database returned to it.
\<close>

definition main_statements :: "int \<Rightarrow> int list \<Rightarrow> stmt list" where
  "main_statements oid pids =
     [INSERT_users 1 ''John Doe'' (Some ''johnny'') (Some ''en'')
        (Some (Timestamp (Date 2020 1 1) 0)) None,
      INSERT_users 2 ''Jane Doe'' (Some ''jane'') (Some ''en'')
        (Some (Timestamp (Date 2020 1 2) 0)) (Some 1),
      SELECT_users_with_referrer,
      SELECT_all_users_and_some_referrers,
      SELECT_some_users_and_all_referrers,
      INSERT_orders 1,
      SELECT_users_orders,
      INSERT_products
        [\<lparr>info_title = ''Product 1'', info_description = Some ''Description 1''\<rparr>,
         \<lparr>info_title = ''Product 2'', info_description = Some ''Description 2''\<rparr>,
         \<lparr>info_title = ''Product 3'', info_description = Some ''Description 3''\<rparr>],
      INSERT_order_products oid (map (\<lambda>product_id. (product_id, 1)) pids),
      SELECT_all_users_products]"

text \<open>
  \<open>logs P m L Q\<close>: started in a state with \<open>P\<close>, the operation \<open>m\<close> gives the session the
  statements \<open>L\<close> and ends with \<open>Q\<close>, or it raises after a prefix of \<open>L\<close>.
\<close>

definition logs ::
  "(session \<Rightarrow> bool) \<Rightarrow> 'a op \<Rightarrow> stmt list \<Rightarrow> ('a \<Rightarrow> session \<Rightarrow> bool) \<Rightarrow> bool" where
  "logs P m L Q \<longleftrightarrow>
     (\<forall>s. P s \<longrightarrow>
        (case m s of
           (Inl e, s') \<Rightarrow> (\<exists>l. log s' = log s @ l \<and> prefix l L)
         | (Inr x, s') \<Rightarrow> log s' = log s @ L \<and> Q x s'))"

definition seqs_at :: "int \<Rightarrow> int \<Rightarrow> session \<Rightarrow> bool" where
  "seqs_at v w s \<longleftrightarrow> orders_order_id_seq (db s) = v \<and> products_product_id_seq (db s) = w"

text \<open>
  What a run that never commits leaves behind: the stored rows are those it found, it has
  given its session no \<^verbatim>\<open>COMMIT\<close>, and the sequences have not gone back.
\<close>

definition uncommitted :: "session \<Rightarrow> session \<Rightarrow> bool" where
  "uncommitted s s' \<longleftrightarrow>
     stored (db s') = stored (db s) \<and>
     (COMMIT \<in> set (log s') \<longrightarrow> COMMIT \<in> set (log s)) \<and>
     orders_order_id_seq (db s) \<le> orders_order_id_seq (db s') \<and>
     products_product_id_seq (db s) \<le> products_product_id_seq (db s')"

definition never_commits :: "'a op \<Rightarrow> bool" where
  "never_commits m \<longleftrightarrow> (\<forall>s. uncommitted s (snd (m s)))"

section \<open>Facts about the joins\<close>

lemma set_inner_join:
  "set (inner_join xs ys on) = {(x, y). x \<in> set xs \<and> y \<in> set ys \<and> on x y}"
  by (auto simp: inner_join_def)

lemma set_left_outer_join:
  "set (left_outer_join xs ys on) =
     {(x, Some y) | x y. x \<in> set xs \<and> y \<in> set ys \<and> on x y} \<union>
     {(x, None) | x. x \<in> set xs \<and> (\<forall>y\<in>set ys. \<not> on x y)}"
  unfolding left_outer_join_def
  by (auto simp: filter_empty_conv)

lemma mset_two:
  assumes h: "mset xs = {#a, b#}"
  shows "xs = [a, b] \<or> xs = [b, a]"
proof -
  have "length xs = 2" using arg_cong [OF h, of size] by simp
  then obtain x y where "xs = [x, y]" by (auto simp: length_Suc_conv numeral_2_eq_2)
  with h show ?thesis by (auto simp: add_eq_conv_ex)
qed

lemma fst_execute_select: "fst (execute_select q rows s) = Inr (rows (txn s))"
  by (simp add: execute_select_def)

section \<open>The three referrer joins\<close>

text \<open>
  C3 (as amended). \<^verbatim>\<open>select_users_with_referrer\<close> always succeeds, and its rows are
  exactly the pairs (user's full name, referrer's full name) of a user and the user its
  \<^verbatim>\<open>referrer_id\<close> names: only users whose referrer exists are returned. When the users
  table holds exactly user 1 (John Doe, no referrer) and user 2 (Jane Doe, referrer 1), in
  either order, the result is the one row (Jane Doe, John Doe), and John Doe is not a value
  of the user column.
\<close>

theorem select_users_with_referrer_rows:
  "fst (select_users_with_referrer s) = Inr (users_with_referrer (txn s)) \<and>
   set (users_with_referrer (txn s)) =
     {(full_name u, full_name r) | u r.
        u \<in> set (users (txn s)) \<and> r \<in> set (users (txn s)) \<and>
        referrer_id u = Some (telegram_id r)} \<and>
   (mset (users (txn s)) = {#u1, u2#} \<and>
    telegram_id u1 = 1 \<and> full_name u1 = ''John Doe'' \<and> referrer_id u1 = None \<and>
    telegram_id u2 = 2 \<and> full_name u2 = ''Jane Doe'' \<and> referrer_id u2 = Some 1 \<longrightarrow>
      users_with_referrer (txn s) = [(''Jane Doe'', ''John Doe'')] \<and>
      ''John Doe'' \<notin> fst ` set (users_with_referrer (txn s)))"
proof (intro conjI impI)
  show "fst (select_users_with_referrer s) = Inr (users_with_referrer (txn s))"
    by (simp add: select_users_with_referrer_def fst_execute_select)
  show "set (users_with_referrer (txn s)) =
     {(full_name u, full_name r) | u r.
        u \<in> set (users (txn s)) \<and> r \<in> set (users (txn s)) \<and>
        referrer_id u = Some (telegram_id r)}"
    unfolding users_with_referrer_def set_map set_inner_join by force
next
  assume h: "mset (users (txn s)) = {#u1, u2#} \<and>
    telegram_id u1 = 1 \<and> full_name u1 = ''John Doe'' \<and> referrer_id u1 = None \<and>
    telegram_id u2 = 2 \<and> full_name u2 = ''Jane Doe'' \<and> referrer_id u2 = Some 1"
  then have "users (txn s) = [u1, u2] \<or> users (txn s) = [u2, u1]"
    by (simp add: mset_two)
  with h show rows: "users_with_referrer (txn s) = [(''Jane Doe'', ''John Doe'')]"
    by (auto simp: users_with_referrer_def inner_join_def)
  show "''John Doe'' \<notin> fst ` set (users_with_referrer (txn s))"
    by (simp add: rows)
qed

theorem select_users_with_referrer_rows_witness:
  "users_with_referrer (stored (database_of_users [user_1, user_2])) = [(''Jane Doe'', ''John Doe'')]"
  using select_users_with_referrer_rows
    [of "session_pool (database_of_users [user_1, user_2]) noon" user_1 user_2]
  by (simp add: session_pool_def database_of_users_def empty_database_def user_1_def user_2_def)

text \<open>
  Against C3 as stated: with a third user who also has user 1 as referrer the table still
  contains user 1 and user 2, and the inner join returns two rows.
\<close>

theorem select_users_with_referrer_third_user:
  "user_1 \<in> set (users (stored (database_of_users [user_1, user_2, user_3]))) \<and>
   telegram_id user_1 = 1 \<and> referrer_id user_1 = None \<and>
   user_2 \<in> set (users (stored (database_of_users [user_1, user_2, user_3]))) \<and>
   telegram_id user_2 = 2 \<and> referrer_id user_2 = Some 1 \<and>
   fst (select_users_with_referrer (session_pool (database_of_users [user_1, user_2, user_3]) noon)) =
     Inr [(''Jane Doe'', ''John Doe''), (''Jim Doe'', ''John Doe'')]"
  by (simp add: select_users_with_referrer_def execute_select_def users_with_referrer_def
      inner_join_def session_pool_def database_of_users_def empty_database_def
      user_1_def user_2_def user_3_def)

lemma all_users_complete:
  assumes u: "u \<in> set (users t)"
  shows "\<exists>row\<in>set (all_users_and_some_referrers t). fst row = full_name u"
proof -
  let ?on = "\<lambda>u r. referrer_id u = Some (telegram_id r)"
  have "(\<exists>r\<in>set (users t). ?on u r) \<or> (\<forall>r\<in>set (users t). \<not> ?on u r)"
    by blast
  then obtain r where r: "(u, r) \<in> set (left_outer_join (users t) (users t) ?on)"
    using u unfolding set_left_outer_join by blast
  have "(full_name u, map_option full_name r) \<in> set (all_users_and_some_referrers t)"
    unfolding all_users_and_some_referrers_def set_map
    by (rule image_eqI [OF _ r]) simp
  then show ?thesis by (rule bexI [rotated]) simp
qed

lemma all_users_two:
  assumes "users t = [u1, u2] \<or> users t = [u2, u1]"
    "telegram_id u1 = 1" "full_name u1 = ''John Doe''" "referrer_id u1 = None"
    "telegram_id u2 = 2" "full_name u2 = ''Jane Doe''" "referrer_id u2 = Some 1"
  shows "mset (all_users_and_some_referrers t) =
        {#(''John Doe'', None), (''Jane Doe'', Some ''John Doe'')#}"
  using assms
  by (auto simp: all_users_and_some_referrers_def left_outer_join_def)

text \<open>
  C4 (as amended). \<^verbatim>\<open>select_all_users_and_some_referrers\<close> always succeeds and
  every user of the table is the user of at least one row (the left outer join drops no
  user). When the users table holds exactly user 1 (John Doe, no referrer) and user 2
  (Jane Doe, referrer 1), in either order, the result has exactly two rows: John Doe with
  the referrer absent, and Jane Doe with referrer John Doe.
\<close>

theorem select_all_users_and_some_referrers_rows:
  "fst (select_all_users_and_some_referrers s) = Inr (all_users_and_some_referrers (txn s)) \<and>
   (\<forall>u\<in>set (users (txn s)).
      \<exists>row\<in>set (all_users_and_some_referrers (txn s)). fst row = full_name u) \<and>
   (mset (users (txn s)) = {#u1, u2#} \<and>
    telegram_id u1 = 1 \<and> full_name u1 = ''John Doe'' \<and> referrer_id u1 = None \<and>
    telegram_id u2 = 2 \<and> full_name u2 = ''Jane Doe'' \<and> referrer_id u2 = Some 1 \<longrightarrow>
      mset (all_users_and_some_referrers (txn s)) =
        {#(''John Doe'', None), (''Jane Doe'', Some ''John Doe'')#})"
proof (intro conjI impI ballI)
  show "fst (select_all_users_and_some_referrers s) = Inr (all_users_and_some_referrers (txn s))"
    by (simp add: select_all_users_and_some_referrers_def fst_execute_select)
next
  fix u assume "u \<in> set (users (txn s))"
  then show "\<exists>row\<in>set (all_users_and_some_referrers (txn s)). fst row = full_name u"
    by (rule all_users_complete)
next
  assume h: "mset (users (txn s)) = {#u1, u2#} \<and>
    telegram_id u1 = 1 \<and> full_name u1 = ''John Doe'' \<and> referrer_id u1 = None \<and>
    telegram_id u2 = 2 \<and> full_name u2 = ''Jane Doe'' \<and> referrer_id u2 = Some 1"
  then have "users (txn s) = [u1, u2] \<or> users (txn s) = [u2, u1]"
    by (simp add: mset_two)
  moreover from h have "telegram_id u1 = 1" "full_name u1 = ''John Doe''"
    "referrer_id u1 = None" "telegram_id u2 = 2" "full_name u2 = ''Jane Doe''"
    "referrer_id u2 = Some 1"
    by blast+
  ultimately show "mset (all_users_and_some_referrers (txn s)) =
        {#(''John Doe'', None), (''Jane Doe'', Some ''John Doe'')#}"
    by (rule all_users_two)
qed

theorem select_all_users_and_some_referrers_rows_witness:
  "all_users_and_some_referrers (stored (database_of_users [user_1, user_2])) =
     [(''John Doe'', None), (''Jane Doe'', Some ''John Doe'')]"
  using select_all_users_and_some_referrers_rows
    [of "session_pool (database_of_users [user_1, user_2]) noon" user_1 user_2]
  by (simp add: all_users_and_some_referrers_def left_outer_join_def
      session_pool_def database_of_users_def empty_database_def user_1_def user_2_def)

text \<open>
  Against C4 as stated: with the third user the table still contains user 1 and user 2,
  and the left outer join returns three rows.
\<close>

theorem select_all_users_and_some_referrers_third_user:
  "user_1 \<in> set (users (stored (database_of_users [user_1, user_2, user_3]))) \<and>
   telegram_id user_1 = 1 \<and> referrer_id user_1 = None \<and>
   user_2 \<in> set (users (stored (database_of_users [user_1, user_2, user_3]))) \<and>
   telegram_id user_2 = 2 \<and> referrer_id user_2 = Some 1 \<and>
   fst (select_all_users_and_some_referrers
          (session_pool (database_of_users [user_1, user_2, user_3]) noon)) =
     Inr [(''John Doe'', None), (''Jane Doe'', Some ''John Doe''), (''Jim Doe'', Some ''John Doe'')]"
  by (simp add: select_all_users_and_some_referrers_def execute_select_def
      all_users_and_some_referrers_def left_outer_join_def session_pool_def
      database_of_users_def empty_database_def user_1_def user_2_def user_3_def)

lemma set_some_users_and_all_referrers:
  "set (some_users_and_all_referrers t) =
      {(Some (full_name u), full_name r) | r u.
         r \<in> set (users t) \<and> u \<in> set (users t) \<and> referrer_id u = Some (telegram_id r)} \<union>
      {(None, full_name r) | r.
         r \<in> set (users t) \<and> (\<forall>u\<in>set (users t). referrer_id u \<noteq> Some (telegram_id r))}"
  unfolding some_users_and_all_referrers_def set_map set_left_outer_join image_Un
  by (rule arg_cong2 [where f = "(\<union>)"]) force+

text \<open>
  C5. \<^verbatim>\<open>select_some_users_and_all_referrers\<close>, the left outer join with the alias
  \<^verbatim>\<open>Referrer\<close> on the left, always succeeds, and in every state: every row of the users
  table is the referrer of at least one result row; a referrer that no user's
  \<^verbatim>\<open>referrer_id\<close> points to has a row with the user column absent; every user whose
  \<^verbatim>\<open>referrer_id\<close> names a referrer has a row with that referrer, so each referenced
  referrer identifier has its row; and the user column is absent only for a referrer that
  no user points to.
\<close>

theorem select_some_users_and_all_referrers_rows:
  "fst (select_some_users_and_all_referrers s) = Inr (some_users_and_all_referrers (txn s)) \<and>
   (\<forall>r\<in>set (users (txn s)).
      \<exists>row\<in>set (some_users_and_all_referrers (txn s)). snd row = full_name r) \<and>
   (\<forall>r\<in>set (users (txn s)).
      (\<forall>u\<in>set (users (txn s)). referrer_id u \<noteq> Some (telegram_id r)) \<longrightarrow>
      (None, full_name r) \<in> set (some_users_and_all_referrers (txn s))) \<and>
   (\<forall>u\<in>set (users (txn s)). \<forall>r\<in>set (users (txn s)).
      referrer_id u = Some (telegram_id r) \<longrightarrow>
      (Some (full_name u), full_name r) \<in> set (some_users_and_all_referrers (txn s))) \<and>
   (\<forall>n. (None, n) \<in> set (some_users_and_all_referrers (txn s)) \<longrightarrow>
      (\<exists>r\<in>set (users (txn s)). full_name r = n \<and>
         (\<forall>u\<in>set (users (txn s)). referrer_id u \<noteq> Some (telegram_id r))))"
proof (intro conjI)
  let ?us = "users (txn s)"
  let ?rows = "some_users_and_all_referrers (txn s)"
  note rows = set_some_users_and_all_referrers [of "txn s"]
  show "fst (select_some_users_and_all_referrers s) = Inr ?rows"
    by (simp add: select_some_users_and_all_referrers_def fst_execute_select)
  show "\<forall>r\<in>set ?us. \<exists>row\<in>set ?rows. snd row = full_name r"
  proof
    fix r assume r: "r \<in> set ?us"
    show "\<exists>row\<in>set ?rows. snd row = full_name r"
    proof (cases "\<exists>u\<in>set ?us. referrer_id u = Some (telegram_id r)")
      case True
      then obtain u where "u \<in> set ?us" "referrer_id u = Some (telegram_id r)" by blast
      with r have "(Some (full_name u), full_name r) \<in> set ?rows" unfolding rows by blast
      then show ?thesis by (rule bexI [rotated]) simp
    next
      case False
      with r have "(None, full_name r) \<in> set ?rows" unfolding rows by blast
      then show ?thesis by (rule bexI [rotated]) simp
    qed
  qed
  show "\<forall>r\<in>set ?us. (\<forall>u\<in>set ?us. referrer_id u \<noteq> Some (telegram_id r)) \<longrightarrow>
      (None, full_name r) \<in> set ?rows"
    unfolding rows by blast
  show "\<forall>u\<in>set ?us. \<forall>r\<in>set ?us. referrer_id u = Some (telegram_id r) \<longrightarrow>
      (Some (full_name u), full_name r) \<in> set ?rows"
    unfolding rows by blast
  show "\<forall>n. (None, n) \<in> set ?rows \<longrightarrow>
      (\<exists>r\<in>set ?us. full_name r = n \<and> (\<forall>u\<in>set ?us. referrer_id u \<noteq> Some (telegram_id r)))"
    unfolding rows by blast
qed

theorem select_some_users_and_all_referrers_rows_witness:
  "fst (select_some_users_and_all_referrers
          (session_pool (database_of_users [user_1, user_2]) noon)) =
     Inr [(Some ''Jane Doe'', ''John Doe''), (None, ''Jane Doe'')]"
  using select_some_users_and_all_referrers_rows
    [of "session_pool (database_of_users [user_1, user_2]) noon"]
  by (simp add: some_users_and_all_referrers_def left_outer_join_def
      session_pool_def database_of_users_def empty_database_def user_1_def user_2_def)

section \<open>The asynchronous path\<close>

text \<open>
  C7. On the same database the asynchronous script fetches the same (order_id, full_name)
  rows as the synchronous \<^verbatim>\<open>show_users_orders\<close>; it succeeds, gives the select and the
  commit to its session, prints each row as (full_name, order_id), and leaves the database
  as it was.
\<close>

theorem async_rows_are_sync_rows:
  "\<exists>rows. fst (show_users_orders (session_pool d t)) = Inr rows \<and>
          fst (async_main_session (session_pool d t')) = Inr rows \<and>
          async_main d t' =
            (Inr (), [SELECT_users_orders, COMMIT],
             [Orders (map (\<lambda>(oid, name). (name, oid)) rows)], d)"
  by (simp add: show_users_orders_def async_main_session_def async_main_def and_then_def
      execute_select_def session_commit_def commit_def return_def print_def close_def
      session_pool_def users_orders_def user_orders_def)

section \<open>Deleting under the declared rules\<close>













section \<open>The start handler\<close>

lemma find_user_None:
  "find (\<lambda>u. telegram_id u = k) us = None \<longleftrightarrow> k \<notin> telegram_id ` set us"
  by (auto simp: find_None_iff)

lemma find_user_snoc:
  "k \<notin> telegram_id ` set us \<Longrightarrow> telegram_id u = k \<Longrightarrow>
   find (\<lambda>u. telegram_id u = k) (us @ [u]) = Some u"
  by (induction us) auto

lemma find_user_Some:
  "find (\<lambda>u. telegram_id u = k) us = Some u \<Longrightarrow> u \<in> set us \<and> telegram_id u = k"
  by (auto simp: find_Some_iff)

lemma filter_key_distinct:
  "distinct (map f xs) \<Longrightarrow> x \<in> set xs \<Longrightarrow> filter (\<lambda>y. f y = f x) xs = [x]"
proof (induction xs)
  case Nil
  then show ?case by simp
next
  case (Cons a xs)
  show ?case
  proof (cases "a = x")
    case True
    with Cons.prems have "f x \<notin> f ` set xs" by auto
    then have "filter (\<lambda>y. f y = f x) xs = []"
      unfolding filter_empty_conv by (metis imageI)
    with True show ?thesis by simp
  next
    case False
    with Cons.prems have "x \<in> set xs" "f a \<noteq> f x" by auto
    with Cons show ?thesis by simp
  qed
qed

lemma user_start_known:
  assumes "find (\<lambda>u. telegram_id u = from_user_id m) (users (txn s)) = Some u"
  shows "user_start str m s =
     (Inr (), s\<lparr>log := log s @ [GET_users (from_user_id m), GET_users (from_user_id m)],
               out := out s @ [Reply (''Hello, user. \<newline>Your info is here: \<newline>\<newline>'' @
                                      user_info str u)]\<rparr>)"
  using assms
  by (simp add: user_start_def and_then_def get_def return_def print_def)

lemma user_start_unknown:
  assumes new: "from_user_id m \<notin> telegram_id ` set (users (txn s))"
    and ok: "storable m" and l: "from_user_language_code m = Some l"
  shows "user_start str m s =
     (let u = \<lparr>telegram_id = from_user_id m, full_name = from_user_full_name m,
               username = from_user_username m, language_code = l,
               User.created_at = Some (now s), referrer_id = None\<rparr>;
          t = (txn s)\<lparr>users := users (txn s) @ [u]\<rparr>
      in (Inr (), s\<lparr>db := (db s)\<lparr>stored := t\<rparr>, txn := t,
                    log := log s @ [GET_users (from_user_id m),
                       INSERT_users (from_user_id m) (from_user_full_name m)
                         (from_user_username m) (Some l) (Some (now s)) None,
                       COMMIT, GET_users (from_user_id m)],
                    out := out s @ [Reply (''Hello, user. \<newline>Your info is here: \<newline>\<newline>'' @
                                           user_info str u)]\<rparr>))"
proof -
  have none: "find (\<lambda>u. telegram_id u = from_user_id m) (users (txn s)) = None"
    using new by (simp add: find_user_None)
  have ins: "insert_into_users (from_user_id m) (from_user_full_name m) (from_user_username m)
       (Some l) (Some (now s)) None (txn s) =
     Inr ((txn s)\<lparr>users := users (txn s) @
        [\<lparr>telegram_id = from_user_id m, full_name = from_user_full_name m,
               username = from_user_username m, language_code = l,
               User.created_at = Some (now s), referrer_id = None\<rparr>]\<rparr>)"
    using new ok l by (simp add: insert_into_users_def storable_def nullable_def)
  show ?thesis
    using none l find_user_snoc [OF new, of _ ]
    by (simp add: user_start_def and_then_def get_def tgbot_create_user_def execute_insert_def
        ins session_commit_def commit_def print_def Let_def)
qed

lemma sublist_user_info:
  "sublist (full_name u) (pre @ user_info str u)"
  "sublist (''@'' @ py_str (\<lambda>x. x) (username u)) (pre @ user_info str u)"
  "sublist (language_code u) (pre @ user_info str u)"
  "sublist (py_str str (User.created_at u)) (pre @ user_info str u)"
proof -
  show "sublist (full_name u) (pre @ user_info str u)"
    unfolding user_info_def sublist_def by (rule exI [of _ pre]) auto
  show "sublist (''@'' @ py_str (\<lambda>x. x) (username u)) (pre @ user_info str u)"
    unfolding user_info_def sublist_def
    by (rule exI [of _ "pre @ full_name u @ '' (''"]) auto
  show "sublist (language_code u) (pre @ user_info str u)"
    unfolding user_info_def sublist_def
    by (rule exI [of _ "pre @ full_name u @ '' (@'' @ py_str (\<lambda>x. x) (username u) @
          '').\<newline>'' @ ''Language: ''"]) auto
  show "sublist (py_str str (User.created_at u)) (pre @ user_info str u)"
    unfolding user_info_def sublist_def
    by (rule exI [of _ "pre @ full_name u @ '' (@'' @ py_str (\<lambda>x. x) (username u) @
          '').\<newline>'' @ ''Language: '' @ language_code u @ ''.\<newline>'' @ ''Created at: ''"]) auto
qed

text \<open>
  C2 (as amended). On first contact, from a sender whose identifier is not in the users
  table and whose values can be stored (a language code is present, the strings and the
  identifier fit their columns), the handler succeeds: it inserts exactly one user row,
  with identifier, full name, handle and language code copied from the message, the
  creation time the database's current time and no referrer; it commits; and it sends one
  reply, whose text contains the full name, \<^verbatim>\<open>@\<close> followed by the handle (by \<^verbatim>\<open>None\<close>
  when the sender has no handle), the language code and the creation timestamp.
\<close>

theorem user_start_first_contact:
  assumes new: "from_user_id m \<notin> telegram_id ` set (users (txn s))"
    and ok: "storable m"
  shows "\<exists>u reply s'.
     user_start str m s = (Inr (), s') \<and>
     txn s' = (txn s)\<lparr>users := users (txn s) @ [u]\<rparr> \<and>
     stored (db s') = txn s' \<and>
     telegram_id u = from_user_id m \<and>
     full_name u = from_user_full_name m \<and>
     username u = from_user_username m \<and>
     Some (language_code u) = from_user_language_code m \<and>
     User.created_at u = Some (now s) \<and>
     referrer_id u = None \<and>
     log s' = log s @ [GET_users (from_user_id m),
                INSERT_users (from_user_id m) (from_user_full_name m) (from_user_username m)
                  (from_user_language_code m) (Some (now s)) None,
                COMMIT, GET_users (from_user_id m)] \<and>
     out s' = out s @ [Reply reply] \<and>
     sublist (from_user_full_name m) reply \<and>
     sublist (''@'' @ py_str (\<lambda>x. x) (from_user_username m)) reply \<and>
     (\<forall>h. from_user_username m = Some h \<longrightarrow> sublist (''@'' @ h) reply) \<and>
     sublist (language_code u) reply \<and>
     sublist (str (now s)) reply"
proof -
  from ok obtain l where l: "from_user_language_code m = Some l"
    by (auto simp: storable_def split: option.splits)
  define u where "u = \<lparr>telegram_id = from_user_id m, full_name = from_user_full_name m,
               username = from_user_username m, language_code = l,
               User.created_at = Some (now s), referrer_id = None\<rparr>"
  define reply where
    "reply = ''Hello, user. \<newline>Your info is here: \<newline>\<newline>'' @ user_info str u"
  define s' where "s' = s\<lparr>db := (db s)\<lparr>stored := (txn s)\<lparr>users := users (txn s) @ [u]\<rparr>\<rparr>,
                    txn := (txn s)\<lparr>users := users (txn s) @ [u]\<rparr>,
                    log := log s @ [GET_users (from_user_id m),
                       INSERT_users (from_user_id m) (from_user_full_name m)
                         (from_user_username m) (Some l) (Some (now s)) None,
                       COMMIT, GET_users (from_user_id m)],
                    out := out s @ [Reply reply]\<rparr>"
  have run: "user_start str m s = (Inr (), s')"
    unfolding user_start_unknown [OF new ok l] s'_def reply_def u_def by (simp add: Let_def)
  have fields: "telegram_id u = from_user_id m" "full_name u = from_user_full_name m"
    "username u = from_user_username m" "Some (language_code u) = from_user_language_code m"
    "User.created_at u = Some (now s)" "referrer_id u = None"
    by (simp_all add: u_def l)
  have sub: "sublist (from_user_full_name m) reply"
    "sublist (''@'' @ py_str (\<lambda>x. x) (from_user_username m)) reply"
    "sublist (language_code u) reply"
    "sublist (py_str str (User.created_at u)) reply"
    using sublist_user_info [where u = u and str = str] unfolding reply_def fields by blast+
  have handle: "\<forall>h. from_user_username m = Some h \<longrightarrow> sublist (''@'' @ h) reply"
    using sub(2) by (auto simp: py_str_def)
  have time: "sublist (str (now s)) reply"
    using sub(4) by (simp add: fields py_str_def)
  have st: "txn s' = (txn s)\<lparr>users := users (txn s) @ [u]\<rparr>" "stored (db s') = txn s'"
    "log s' = log s @ [GET_users (from_user_id m),
                INSERT_users (from_user_id m) (from_user_full_name m) (from_user_username m)
                  (from_user_language_code m) (Some (now s)) None,
                COMMIT, GET_users (from_user_id m)]"
    "out s' = out s @ [Reply reply]"
    by (simp_all add: s'_def l)
  show ?thesis
    using run st fields sub(1-3) handle time
    by (intro exI [of _ u] exI [of _ reply] exI [of _ s'] conjI) assumption+
qed

theorem user_start_first_contact_witness:
  "from_user_id message_of_ann \<notin>
     telegram_id ` set (users (txn (session_pool empty_database noon))) \<and>
   storable message_of_ann \<and>
   (\<exists>reply s'.
      user_start (\<lambda>_. ''2020-01-04 12:00:00'') message_of_ann
        (session_pool empty_database noon) = (Inr (), s') \<and>
      out s' = [Reply reply] \<and>
      sublist ''Ann Lee'' reply \<and> sublist ''@ann'' reply \<and> sublist ''en'' reply \<and>
      sublist ''2020-01-04 12:00:00'' reply)"
proof -
  have new: "from_user_id message_of_ann \<notin>
      telegram_id ` set (users (txn (session_pool empty_database noon)))"
    by (simp add: session_pool_def empty_database_def)
  have ok: "storable message_of_ann"
    by (simp add: storable_def message_of_ann_def BIGINT_def VARCHAR_def nullable_def)
  from user_start_first_contact [OF new ok, of "\<lambda>_. ''2020-01-04 12:00:00''"]
  obtain u :: User and reply s' where
    "user_start (\<lambda>_. ''2020-01-04 12:00:00'') message_of_ann
       (session_pool empty_database noon) = (Inr (), s')"
    "out s' = out (session_pool empty_database noon) @ [Reply reply]"
    "sublist (from_user_full_name message_of_ann) reply"
    "\<forall>h. from_user_username message_of_ann = Some h \<longrightarrow> sublist (''@'' @ h) reply"
    "Some (language_code u) = from_user_language_code message_of_ann"
    "sublist (language_code u) reply"
    "sublist ''2020-01-04 12:00:00'' reply"
    by blast
  then have "user_start (\<lambda>_. ''2020-01-04 12:00:00'') message_of_ann
        (session_pool empty_database noon) = (Inr (), s') \<and>
      out s' = [Reply reply] \<and>
      sublist ''Ann Lee'' reply \<and> sublist ''@ann'' reply \<and> sublist ''en'' reply \<and>
      sublist ''2020-01-04 12:00:00'' reply"
    by (simp add: message_of_ann_def session_pool_def)
  with new ok show ?thesis by blast
qed

text \<open>
  Against C2 as stated: a first message that carries no language code. The insert is
  refused, no row is inserted and no reply is sent.
\<close>

theorem user_start_without_language:
  "from_user_id message_without_language \<notin>
     telegram_id ` set (users (txn (session_pool empty_database noon))) \<and>
   user_start (\<lambda>_. ''2020-01-04 12:00:00'') message_without_language
     (session_pool empty_database noon) =
   (Inl NotNullViolation,
    (session_pool empty_database noon)
      \<lparr>log := [GET_users 42, INSERT_users 42 ''Ann Lee'' (Some ''ann'') None (Some noon) None]\<rparr>)"
  by (simp add: user_start_def and_then_def get_def tgbot_create_user_def execute_insert_def
      insert_into_users_def message_without_language_def message_of_ann_def session_pool_def
      empty_database_def BIGINT_def VARCHAR_def nullable_def)

text \<open>
  C1 (as amended). Two invocations in sequence for the same sender identifier \<open>k\<close>, each
  in its own session, when the sender is already known or the first message can be stored.
  Both succeed. The first inserts one row and commits once when the sender was unknown,
  and neither inserts nor commits when the sender was known; the second only looks the row
  up, twice, and changes nothing. Afterwards the users table has exactly one row for \<open>k\<close>.
  Both replies are the same text, which contains the stored full name, handle, language
  code and creation timestamp. Every invocation asks its session for the user row twice.
\<close>

theorem user_start_twice:
  assumes m1: "from_user_id m1 = k" and m2: "from_user_id m2 = k"
    and pk: "distinct (map telegram_id (users (stored d)))"
    and ok: "k \<in> telegram_id ` set (users (stored d)) \<or> storable m1"
  shows "\<exists>s1 s2 u reply.
     start_twice str m1 m2 d t1 t2 = ((Inr (), s1), (Inr (), s2)) \<and>
     (if k \<in> telegram_id ` set (users (stored d))
      then users (stored (close s1)) = users (stored d) \<and>
           log s1 = [GET_users k, GET_users k]
      else users (stored (close s1)) = users (stored d) @ [u] \<and>
           log s1 = [GET_users k,
                     INSERT_users k (from_user_full_name m1) (from_user_username m1)
                       (from_user_language_code m1) (Some t1) None,
                     COMMIT, GET_users k]) \<and>
     log s2 = [GET_users k, GET_users k] \<and>
     close s2 = close s1 \<and>
     filter (\<lambda>v. telegram_id v = k) (users (stored (close s2))) = [u] \<and>
     out s1 = [Reply reply] \<and> out s2 = [Reply reply] \<and>
     sublist (full_name u) reply \<and>
     sublist (''@'' @ py_str (\<lambda>x. x) (username u)) reply \<and>
     sublist (language_code u) reply \<and>
     sublist (py_str str (User.created_at u)) reply"
proof (cases "k \<in> telegram_id ` set (users (stored d))")
  case True
  then obtain u where u: "find (\<lambda>u. telegram_id u = k) (users (stored d)) = Some u"
    using find_user_None [of k "users (stored d)"] by (cases "find (\<lambda>u. telegram_id u = k) (users (stored d))") auto
  define reply where
    "reply = ''Hello, user. \<newline>Your info is here: \<newline>\<newline>'' @ user_info str u"
  define s1 where "s1 = (session_pool d t1)\<lparr>log := [GET_users k, GET_users k], out := [Reply reply]\<rparr>"
  define s2 where "s2 = (session_pool d t2)\<lparr>log := [GET_users k, GET_users k], out := [Reply reply]\<rparr>"
  have c1: "close s1 = d" by (simp add: s1_def close_def session_pool_def)
  have r1: "user_start str m1 (session_pool d t1) = (Inr (), s1)"
    using user_start_known [of m1 "session_pool d t1" u str] u
    by (simp add: m1 s1_def reply_def session_pool_def)
  have r2: "user_start str m2 (session_pool (close s1) t2) = (Inr (), s2)"
    using user_start_known [of m2 "session_pool d t2" u str] u
    by (simp add: c1 m2 s2_def reply_def session_pool_def)
  have both: "start_twice str m1 m2 d t1 t2 = ((Inr (), s1), (Inr (), s2))"
    using r1 r2 by (simp add: start_twice_def)
  have c2: "close s2 = close s1" by (simp add: s1_def s2_def close_def session_pool_def)
  from find_user_Some [OF u] have "u \<in> set (users (stored d))" "telegram_id u = k" by auto
  with filter_key_distinct [OF pk, of u]
  have one: "filter (\<lambda>v. telegram_id v = k) (users (stored (close s2))) = [u]"
    by (simp add: c2 c1)
  have st: "users (stored (close s1)) = users (stored d) \<and> log s1 = [GET_users k, GET_users k]"
    "log s2 = [GET_users k, GET_users k]" "out s1 = [Reply reply]" "out s2 = [Reply reply]"
    by (simp_all add: s1_def s2_def close_def session_pool_def)
  note sub = sublist_user_info [where u = u and str = str
      and pre = "''Hello, user. \<newline>Your info is here: \<newline>\<newline>''", folded reply_def]
  show ?thesis
    apply (rule exI [of _ s1], rule exI [of _ s2], rule exI [of _ u], rule exI [of _ reply])
    apply (simp only: True if_True)
    apply (intro conjI)
    using both st c2 one sub by blast+
next
  case False
  with ok have ok1: "storable m1" by blast
  then obtain l where l: "from_user_language_code m1 = Some l"
    by (auto simp: storable_def split: option.splits)
  define u where "u = \<lparr>telegram_id = k, full_name = from_user_full_name m1,
               username = from_user_username m1, language_code = l,
               User.created_at = Some t1, referrer_id = None\<rparr>"
  define T where "T = (stored d)\<lparr>users := users (stored d) @ [u]\<rparr>"
  define reply where
    "reply = ''Hello, user. \<newline>Your info is here: \<newline>\<newline>'' @ user_info str u"
  define s1 where "s1 = \<lparr>db = d\<lparr>stored := T\<rparr>, txn = T,
      log = [GET_users k, INSERT_users k (from_user_full_name m1) (from_user_username m1)
                       (from_user_language_code m1) (Some t1) None, COMMIT, GET_users k],
      now = t1, out = [Reply reply]\<rparr>"
  define s2 where "s2 = (session_pool (d\<lparr>stored := T\<rparr>) t2)
      \<lparr>log := [GET_users k, GET_users k], out := [Reply reply]\<rparr>"
  have new: "from_user_id m1 \<notin> telegram_id ` set (users (txn (session_pool d t1)))"
    using False by (simp add: m1 session_pool_def)
  have r1: "user_start str m1 (session_pool d t1) = (Inr (), s1)"
    unfolding user_start_unknown [OF new ok1 l]
    by (simp add: Let_def s1_def T_def u_def reply_def m1 l session_pool_def)
  have c1: "close s1 = d\<lparr>stored := T\<rparr>" by (simp add: s1_def close_def)
  have f: "find (\<lambda>u. telegram_id u = from_user_id m2)
             (users (txn (session_pool (d\<lparr>stored := T\<rparr>) t2))) = Some u"
    using find_user_snoc [OF False, of u] by (simp add: m2 session_pool_def T_def u_def)
  have r2: "user_start str m2 (session_pool (close s1) t2) = (Inr (), s2)"
    unfolding c1 user_start_known [OF f]
    by (simp add: m2 s2_def reply_def session_pool_def)
  have both: "start_twice str m1 m2 d t1 t2 = ((Inr (), s1), (Inr (), s2))"
    using r1 r2 by (simp add: start_twice_def)
  have c2: "close s2 = close s1" by (simp add: s1_def s2_def close_def session_pool_def)
  have "filter (\<lambda>v. telegram_id v = k) (users (stored d)) = []"
    using False unfolding filter_empty_conv by (metis imageI)
  then have one: "filter (\<lambda>v. telegram_id v = k) (users (stored (close s2))) = [u]"
    by (simp add: c2 c1 T_def u_def)
  have st: "users (stored (close s1)) = users (stored d) @ [u] \<and>
           log s1 = [GET_users k,
                     INSERT_users k (from_user_full_name m1) (from_user_username m1)
                       (from_user_language_code m1) (Some t1) None,
                     COMMIT, GET_users k]"
    "log s2 = [GET_users k, GET_users k]" "out s1 = [Reply reply]" "out s2 = [Reply reply]"
    by (simp_all add: s1_def s2_def T_def close_def session_pool_def)
  note sub = sublist_user_info [where u = u and str = str
      and pre = "''Hello, user. \<newline>Your info is here: \<newline>\<newline>''", folded reply_def]
  show ?thesis
    apply (rule exI [of _ s1], rule exI [of _ s2], rule exI [of _ u], rule exI [of _ reply])
    apply (simp only: False if_False)
    apply (intro conjI)
    using both st c2 one sub by blast+
qed

theorem user_start_twice_witness:
  "from_user_id message_of_ann = 42 \<and>
   distinct (map telegram_id (users (stored empty_database))) \<and>
   storable message_of_ann \<and>
   (\<exists>s1 s2 reply.
      start_twice (\<lambda>_. ''2020-01-04 12:00:00'') message_of_ann message_of_ann
        empty_database noon (Timestamp (Date 2020 1 5) 0) = ((Inr (), s1), (Inr (), s2)) \<and>
      log s1 = [GET_users 42, INSERT_users 42 ''Ann Lee'' (Some ''ann'') (Some ''en'')
                  (Some noon) None, COMMIT, GET_users 42] \<and>
      log s2 = [GET_users 42, GET_users 42] \<and>
      out s1 = [Reply reply] \<and> out s2 = [Reply reply])"
proof -
  have k: "from_user_id message_of_ann = 42" by (simp add: message_of_ann_def)
  have pk: "distinct (map telegram_id (users (stored empty_database)))"
    by (simp add: empty_database_def)
  have ok: "storable message_of_ann"
    by (simp add: storable_def message_of_ann_def BIGINT_def VARCHAR_def nullable_def)
  have new: "42 \<notin> telegram_id ` set (users (stored empty_database))"
    by (simp add: empty_database_def)
  from user_start_twice [OF k k pk disjI2 [OF ok], of "\<lambda>_. ''2020-01-04 12:00:00''" noon
      "Timestamp (Date 2020 1 5) 0"]
  obtain s1 s2 and u :: User and reply where
    "start_twice (\<lambda>_. ''2020-01-04 12:00:00'') message_of_ann message_of_ann
        empty_database noon (Timestamp (Date 2020 1 5) 0) = ((Inr (), s1), (Inr (), s2))"
    "if 42 \<in> telegram_id ` set (users (stored empty_database))
      then users (stored (close s1)) = users (stored empty_database) \<and>
           log s1 = [GET_users 42, GET_users 42]
      else users (stored (close s1)) = users (stored empty_database) @ [u] \<and>
           log s1 = [GET_users 42,
                     INSERT_users 42 (from_user_full_name message_of_ann)
                       (from_user_username message_of_ann)
                       (from_user_language_code message_of_ann) (Some noon) None,
                     COMMIT, GET_users 42]"
    "log s2 = [GET_users 42, GET_users 42]"
    "out s1 = [Reply reply]" "out s2 = [Reply reply]"
    by blast
  then have "start_twice (\<lambda>_. ''2020-01-04 12:00:00'') message_of_ann message_of_ann
        empty_database noon (Timestamp (Date 2020 1 5) 0) = ((Inr (), s1), (Inr (), s2)) \<and>
      log s1 = [GET_users 42, INSERT_users 42 ''Ann Lee'' (Some ''ann'') (Some ''en'')
                  (Some noon) None, COMMIT, GET_users 42] \<and>
      log s2 = [GET_users 42, GET_users 42] \<and>
      out s1 = [Reply reply] \<and> out s2 = [Reply reply]"
    using new by (simp add: message_of_ann_def)
  with k pk ok show ?thesis by blast
qed

text \<open>
  Against C1 as stated: two invocations for an unknown sender whose messages carry no
  language code. Both inserts are refused, no row is inserted, nothing is committed and no
  reply is sent.
\<close>

theorem start_twice_without_language:
  "start_twice (\<lambda>_. ''2020-01-04 12:00:00'') message_without_language message_without_language
     empty_database noon (Timestamp (Date 2020 1 5) 0) =
   ((Inl NotNullViolation,
     (session_pool empty_database noon)
       \<lparr>log := [GET_users 42, INSERT_users 42 ''Ann Lee'' (Some ''ann'') None (Some noon) None]\<rparr>),
    (Inl NotNullViolation,
     (session_pool empty_database (Timestamp (Date 2020 1 5) 0))
       \<lparr>log := [GET_users 42, INSERT_users 42 ''Ann Lee'' (Some ''ann'') None
                  (Some (Timestamp (Date 2020 1 5) 0)) None]\<rparr>))"
  by (simp add: start_twice_def user_start_def and_then_def get_def tgbot_create_user_def
      execute_insert_def insert_into_users_def message_without_language_def message_of_ann_def
      session_pool_def close_def empty_database_def BIGINT_def VARCHAR_def nullable_def Let_def)

section \<open>The statements of the driver, one by one\<close>

lemma create_user_ok:
  assumes "tid \<notin> telegram_id ` set (users (txn s))"
    and "BIGINT tid" "nullable BIGINT rid"
    and "VARCHAR 255 name" "nullable (VARCHAR 255) uname" "VARCHAR 10 lang"
    and "nullable (\<lambda>r. r = tid \<or> r \<in> telegram_id ` set (users (txn s))) rid"
  shows "create_user tid name uname lang created rid s =
    (Inr (), s\<lparr>txn := (txn s)\<lparr>users := users (txn s) @
                 [\<lparr>telegram_id = tid, full_name = name, username = uname,
                   language_code = lang,
                   User.created_at = Some (timestamp_of_date created),
                   referrer_id = rid\<rparr>]\<rparr>,
               log := log s @ [INSERT_users tid name uname (Some lang)
                                 (Some (timestamp_of_date created)) rid]\<rparr>)"
  using assms
  by (simp add: create_user_def execute_insert_def insert_into_users_def nullable_def)

lemma create_new_order_for_user_ok:
  assumes "BIGINT uid" "Integer (orders_order_id_seq (db s) + 1)"
    and "orders_order_id_seq (db s) + 1 \<notin> Order.order_id ` set (orders (txn s))"
    and "uid \<in> telegram_id ` set (users (txn s))"
  shows "create_new_order_for_user uid s =
    (Inr (orders_order_id_seq (db s) + 1),
     s\<lparr>db := (db s)\<lparr>orders_order_id_seq := orders_order_id_seq (db s) + 1\<rparr>,
       txn := (txn s)\<lparr>orders := orders (txn s) @
                [\<lparr>Order.order_id = orders_order_id_seq (db s) + 1, user_id = uid,
                  Order.created_at = Some (now s)\<rparr>]\<rparr>,
       log := log s @ [INSERT_orders uid]\<rparr>)"
  using assms
  by (simp add: create_new_order_for_user_def insert_into_orders_def Let_def)

lemma create_new_products_ok:
  assumes "products_info \<noteq> []"
    and "list_all (\<lambda>i. VARCHAR 255 (info_title i) \<and>
                        nullable (VARCHAR 3000) (info_description i)) products_info"
    and "Integer (products_product_id_seq (db s) + int (length products_info))"
    and "list_all (\<lambda>k. k \<notin> Product.product_id ` set (products (txn s)))
           (map (\<lambda>k. products_product_id_seq (db s) + 1 + int k) [0 ..< length products_info])"
  shows "create_new_products products_info s =
    (Inr (map (\<lambda>k. products_product_id_seq (db s) + 1 + int k) [0 ..< length products_info]),
     s\<lparr>db := (db s)\<lparr>products_product_id_seq :=
                products_product_id_seq (db s) + int (length products_info)\<rparr>,
       txn := (txn s)\<lparr>products := products (txn s) @
                map (new_product (now s))
                  (zip (map (\<lambda>k. products_product_id_seq (db s) + 1 + int k)
                          [0 ..< length products_info]) products_info)\<rparr>,
       log := log s @ [INSERT_products products_info]\<rparr>)"
  using assms
  by (simp add: create_new_products_def Let_def)

lemma add_products_to_order_ok:
  assumes "product_data \<noteq> []"
    and "Integer oid" "list_all (\<lambda>(pid, q). Integer pid \<and> Integer q) product_data"
    and "distinct (map fst product_data)"
    and "oid \<notin> OrderProduct.order_id ` set (order_products (txn s))"
    and "oid \<in> Order.order_id ` set (orders (txn s))"
    and "list_all (\<lambda>(pid, q). pid \<in> Product.product_id ` set (products (txn s))) product_data"
  shows "add_products_to_order oid product_data s =
    (Inr (), s\<lparr>txn := (txn s)\<lparr>order_products := order_products (txn s) @
                 map (\<lambda>(pid, q). \<lparr>OrderProduct.order_id = oid, product_id = pid, quantity = q\<rparr>)
                   product_data\<rparr>,
               log := log s @ [INSERT_order_products oid product_data]\<rparr>)"
proof -
  let ?rows = "map (\<lambda>(pid, q). \<lparr>OrderProduct.order_id = oid, product_id = pid, quantity = q\<rparr>)
                   product_data"
  let ?key = "\<lambda>r. (OrderProduct.order_id r, OrderProduct.product_id r)"
  have types: "list_all (\<lambda>r. Integer (OrderProduct.order_id r) \<and>
                            Integer (OrderProduct.product_id r) \<and> Integer (quantity r)) ?rows"
    using assms(2,3) by (auto simp: list_all_iff)
  have keys: "map ?key ?rows = map (\<lambda>(pid, q). (oid, pid)) product_data"
    by (auto simp: comp_def split_def)
  have "distinct (map (\<lambda>(pid, q). (oid, pid)) product_data)"
    using assms(4) by (simp add: distinct_map inj_on_def split_def)
  then have dist: "distinct (map ?key ?rows)" by (simp only: keys)
  have new: "list_all (\<lambda>r. ?key r \<notin> ?key ` set (order_products (txn s))) ?rows"
    using assms(5) by (force simp: list_all_iff)
  have fks: "list_all (\<lambda>r. OrderProduct.order_id r \<in> Order.order_id ` set (orders (txn s)) \<and>
                  OrderProduct.product_id r \<in> Product.product_id ` set (products (txn s))) ?rows"
    using assms(6,7) by (auto simp: list_all_iff)
  have "insert_into_order_products ?rows (txn s) =
      Inr ((txn s)\<lparr>order_products := order_products (txn s) @ ?rows\<rparr>)"
    unfolding insert_into_order_products_def Let_def
    using types dist new fks by simp
  then show ?thesis
    using assms(1) by (simp add: add_products_to_order_def execute_insert_def)
qed

lemma consistentD:
  assumes "consistent d"
  shows "orders_order_id_seq d + 1 \<notin> Order.order_id ` set (orders (stored d))"
    and "orders_order_id_seq d + 1 \<notin> OrderProduct.order_id ` set (order_products (stored d))"
    and "0 < k \<Longrightarrow> products_product_id_seq d + k \<notin> Product.product_id ` set (products (stored d))"
    and "0 \<le> orders_order_id_seq d" and "0 \<le> products_product_id_seq d"
proof -
  from assms have le: "\<forall>ord\<in>set (orders (stored d)). Order.order_id ord \<le> orders_order_id_seq d"
    and lp: "\<forall>p\<in>set (products (stored d)). Product.product_id p \<le> products_product_id_seq d"
    and fk: "\<forall>r\<in>set (order_products (stored d)).
               OrderProduct.order_id r \<in> Order.order_id ` set (orders (stored d))"
    by (auto simp: consistent_def foreign_keys_def list_all_iff)
  show a: "orders_order_id_seq d + 1 \<notin> Order.order_id ` set (orders (stored d))"
    using le by force
  show "orders_order_id_seq d + 1 \<notin> OrderProduct.order_id ` set (order_products (stored d))"
    using a fk by force
  show "products_product_id_seq d + k \<notin> Product.product_id ` set (products (stored d))"
    if "0 < k" using lp that by force
  show "0 \<le> orders_order_id_seq d" "0 \<le> products_product_id_seq d"
    using assms by (auto simp: consistent_def)
qed

lemma queries_of_users:
  "users t = users t' \<Longrightarrow> users_with_referrer t = users_with_referrer t'"
  "users t = users t' \<Longrightarrow> all_users_and_some_referrers t = all_users_and_some_referrers t'"
  "users t = users t' \<Longrightarrow> some_users_and_all_referrers t = some_users_and_all_referrers t'"
  "users t = users t' \<Longrightarrow> orders t = orders t' \<Longrightarrow> users_orders t = users_orders t'"
  by (simp_all add: users_with_referrer_def all_users_and_some_referrers_def
      some_users_and_all_referrers_def users_orders_def)

lemma main_session_runs:
  assumes c: "consistent d"
    and u1: "1 \<notin> telegram_id ` set (users (stored d))"
    and u2: "2 \<notin> telegram_id ` set (users (stored d))"
    and o: "orders_order_id_seq d + 1 < 2 ^ 31"
    and p: "products_product_id_seq d + 3 < 2 ^ 31"
  shows "main_session (session_pool d t) =
    (Inr (),
     \<lparr>db = d\<lparr>orders_order_id_seq := orders_order_id_seq d + 1,
              products_product_id_seq := products_product_id_seq d + 3\<rparr>,
      txn = after_main d t,
      log = [INSERT_users 1 ''John Doe'' (Some ''johnny'') (Some ''en'')
               (Some (Timestamp (Date 2020 1 1) 0)) None,
             INSERT_users 2 ''Jane Doe'' (Some ''jane'') (Some ''en'')
               (Some (Timestamp (Date 2020 1 2) 0)) (Some 1),
             SELECT_users_with_referrer, SELECT_all_users_and_some_referrers,
             SELECT_some_users_and_all_referrers,
             INSERT_orders 1,
             SELECT_users_orders,
             INSERT_products three_products,
             INSERT_order_products (orders_order_id_seq d + 1)
               [(products_product_id_seq d + 1, 1), (products_product_id_seq d + 2, 1),
                (products_product_id_seq d + 3, 1)],
             SELECT_all_users_products],
      now = t,
      out = [Users_with_referrer (users_with_referrer (after_main d t)),
             All_users_and_their_referrers (all_users_and_some_referrers (after_main d t)),
             Some_users_and_all_their_referrers (some_users_and_all_referrers (after_main d t)),
             Users_orders (users_orders (after_main d t)),
             Product_ids [products_product_id_seq d + 1, products_product_id_seq d + 2,
                          products_product_id_seq d + 3],
             Users_products (all_users_products (after_main d t))]\<rparr>)"
proof -
  let ?o = "orders_order_id_seq d" and ?p = "products_product_id_seq d"
  note cd = consistentD [OF c]
  define T1 where "T1 = (stored d)\<lparr>users := users (stored d) @ [user_1]\<rparr>"
  define T2 where "T2 = (stored d)\<lparr>users := users (stored d) @ [user_1, user_2]\<rparr>"
  define T3 where "T3 = T2\<lparr>orders := orders (stored d) @
         [\<lparr>Order.order_id = ?o + 1, user_id = 1, Order.created_at = Some t\<rparr>]\<rparr>"
  define T4 where "T4 = T3\<lparr>products := products (stored d) @
         map (new_product t) (zip [?p + 1, ?p + 2, ?p + 3] three_products)\<rparr>"
  define L1 where "L1 = [INSERT_users 1 ''John Doe'' (Some ''johnny'') (Some ''en'')
               (Some (Timestamp (Date 2020 1 1) 0)) None]"
  define L2 where "L2 = L1 @ [INSERT_users 2 ''Jane Doe'' (Some ''jane'') (Some ''en'')
               (Some (Timestamp (Date 2020 1 2) 0)) (Some 1)]"
  define s0 where "s0 = session_pool d t"
  define s1 where "s1 = s0\<lparr>txn := T1, log := L1\<rparr>"
  define s2 where "s2 = s0\<lparr>txn := T2, log := L2\<rparr>"
  have e1: "create_user 1 ''John Doe'' (Some ''johnny'') ''en'' (Date 2020 1 1) None s0 = (Inr (), s1)"
    using u1
    by (subst create_user_ok)
      (simp_all add: s0_def s1_def T1_def L1_def session_pool_def BIGINT_def VARCHAR_def
        nullable_def user_1_def timestamp_of_date_def)
  have e2: "create_user 2 ''Jane Doe'' (Some ''jane'') ''en'' (Date 2020 1 2) (Some 1) s1 = (Inr (), s2)"
    using u2
    by (subst create_user_ok)
      (simp_all add: s0_def s1_def s2_def T1_def T2_def L1_def L2_def session_pool_def BIGINT_def
        VARCHAR_def nullable_def user_1_def user_2_def timestamp_of_date_def)
  define s3 where "s3 = s2\<lparr>log := L2 @ [SELECT_users_with_referrer],
      out := [Users_with_referrer (users_with_referrer T2)]\<rparr>"
  define s4 where "s4 = s2\<lparr>log := L2 @ [SELECT_users_with_referrer,
        SELECT_all_users_and_some_referrers],
      out := [Users_with_referrer (users_with_referrer T2),
              All_users_and_their_referrers (all_users_and_some_referrers T2)]\<rparr>"
  define s5 where "s5 = s2\<lparr>log := L2 @ [SELECT_users_with_referrer,
        SELECT_all_users_and_some_referrers, SELECT_some_users_and_all_referrers],
      out := [Users_with_referrer (users_with_referrer T2),
              All_users_and_their_referrers (all_users_and_some_referrers T2),
              Some_users_and_all_their_referrers (some_users_and_all_referrers T2)]\<rparr>"
  have e3: "and_then select_users_with_referrer
              (\<lambda>r. and_then (print (Users_with_referrer r)) k) s2 = k () s3" for k :: "unit \<Rightarrow> unit op"
    by (simp add: and_then_def select_users_with_referrer_def execute_select_def print_def
        s3_def s2_def s0_def session_pool_def)
  have e4: "and_then select_all_users_and_some_referrers
              (\<lambda>r. and_then (print (All_users_and_their_referrers r)) k) s3 = k () s4"
    for k :: "unit \<Rightarrow> unit op"
    by (simp add: and_then_def select_all_users_and_some_referrers_def execute_select_def
        print_def s3_def s4_def s2_def s0_def session_pool_def)
  have e5: "and_then select_some_users_and_all_referrers
              (\<lambda>r. and_then (print (Some_users_and_all_their_referrers r)) k) s4 = k () s5"
    for k :: "unit \<Rightarrow> unit op"
    by (simp add: and_then_def select_some_users_and_all_referrers_def execute_select_def
        print_def s5_def s4_def s2_def s0_def session_pool_def)
  define s6 where "s6 = s5\<lparr>db := d\<lparr>orders_order_id_seq := ?o + 1\<rparr>, txn := T3,
      log := log s5 @ [INSERT_orders 1]\<rparr>"
  have e6: "create_new_order_for_user 1 s5 = (Inr (?o + 1), s6)"
    using cd(1) cd(4) o
    by (subst create_new_order_for_user_ok)
      (simp_all add: s6_def s5_def s2_def s0_def T2_def T3_def session_pool_def BIGINT_def
        Integer_def user_1_def)
  define s7 where "s7 = s6\<lparr>log := log s6 @ [SELECT_users_orders],
      out := out s6 @ [Users_orders (users_orders T3)]\<rparr>"
  have e7: "and_then show_users_orders (\<lambda>r. and_then (print (Users_orders r)) k) s6 = k () s7"
    for k :: "unit \<Rightarrow> unit op"
    by (simp add: and_then_def show_users_orders_def execute_select_def print_def s7_def s6_def)
  define s8 where "s8 = s7\<lparr>db := d\<lparr>orders_order_id_seq := ?o + 1,
        products_product_id_seq := ?p + 3\<rparr>, txn := T4,
      log := log s7 @ [INSERT_products three_products]\<rparr>"
  have e8: "create_new_products three_products s7 = (Inr [?p + 1, ?p + 2, ?p + 3], s8)"
    using cd(3) [of 1] cd(3) [of 2] cd(3) [of 3] cd(5) p
    by (subst create_new_products_ok)
      (simp_all add: s8_def s7_def s6_def s5_def s2_def s0_def T2_def T3_def T4_def
        session_pool_def three_products_def VARCHAR_def Integer_def nullable_def
        upt_rec [of 0] upt_rec [of 1] upt_rec [of 2] numeral_3_eq_3 add.commute)
  define s9 where "s9 = s8\<lparr>out := out s8 @ [Product_ids [?p + 1, ?p + 2, ?p + 3]]\<rparr>"
  define s10 where "s10 = s9\<lparr>txn := after_main d t,
      log := log s9 @ [INSERT_order_products (?o + 1) [(?p + 1, 1), (?p + 2, 1), (?p + 3, 1)]]\<rparr>"
  have e10: "add_products_to_order (?o + 1) [(?p + 1, 1), (?p + 2, 1), (?p + 3, 1)] s9 =
      (Inr (), s10)"
    using cd(2) cd(4) cd(5) o p
    by (subst add_products_to_order_ok)
      (simp_all add: s10_def s9_def s8_def s7_def s6_def s5_def s2_def s0_def T2_def T3_def
        T4_def after_main_def Let_def session_pool_def Integer_def three_products_def
        new_product_def)
  have q: "users_with_referrer T2 = users_with_referrer (after_main d t)"
    "all_users_and_some_referrers T2 = all_users_and_some_referrers (after_main d t)"
    "some_users_and_all_referrers T2 = some_users_and_all_referrers (after_main d t)"
    "users_orders T3 = users_orders (after_main d t)"
    by (rule queries_of_users; simp add: T2_def T3_def after_main_def Let_def)+
  have a1: "and_then (create_user 1 ''John Doe'' (Some ''johnny'') ''en'' (Date 2020 1 1) None) k s0
      = k () s1" for k :: "unit \<Rightarrow> unit op"
    by (simp add: and_then_def e1)
  have a2: "and_then (create_user 2 ''Jane Doe'' (Some ''jane'') ''en'' (Date 2020 1 2) (Some 1))
      k s1 = k () s2" for k :: "unit \<Rightarrow> unit op"
    by (simp add: and_then_def e2)
  have a6: "and_then (create_new_order_for_user 1) k s5 = k (?o + 1) s6"
    for k :: "int \<Rightarrow> unit op"
    by (simp add: and_then_def e6)
  have a8: "and_then (create_new_products three_products) k s7 = k [?p + 1, ?p + 2, ?p + 3] s8"
    for k :: "int list \<Rightarrow> unit op"
    by (simp add: and_then_def e8)
  have a9: "and_then (print (Product_ids [?p + 1, ?p + 2, ?p + 3])) k s8 = k () s9"
    for k :: "unit \<Rightarrow> unit op"
    by (simp add: and_then_def print_def s9_def)
  have a10: "and_then (add_products_to_order (?o + 1)
       [(?p + 1, 1), (?p + 2, 1), (?p + 3, 1)]) k s9 = k () s10"
    for k :: "unit \<Rightarrow> unit op"
    using e10 by (simp add: and_then_def)
  have "main_session s0 =
      and_then show_all_users_products (\<lambda>r. print (Users_products r)) s10"
    unfolding main_session_def three_products_def [symmetric]
    by (simp add: a1 a2 e3 e4 e5 a6 e7 a8 a9 a10)
  also have "\<dots> = (Inr (), s10\<lparr>log := log s10 @ [SELECT_all_users_products],
      out := out s10 @ [Users_products (all_users_products (after_main d t))]\<rparr>)"
    by (simp add: and_then_def show_all_users_products_def execute_select_def print_def
        s10_def)
  finally show ?thesis
    unfolding s0_def [symmetric]
    by (simp add: s10_def s9_def s8_def s7_def s6_def s5_def s2_def s0_def L2_def L1_def q
        session_pool_def)
qed

section \<open>Nothing is committed\<close>

lemma uncommitted_trans: "uncommitted s s' \<Longrightarrow> uncommitted s' s'' \<Longrightarrow> uncommitted s s''"
  by (auto simp: uncommitted_def)

lemma never_commits_and_then:
  assumes "never_commits m" and "\<And>x. never_commits (f x)"
  shows "never_commits (and_then m f)"
  unfolding never_commits_def
proof
  fix s
  obtain r s' where m: "m s = (r, s')" by (cases "m s")
  from assms(1) have a: "uncommitted s s'"
    unfolding never_commits_def using m by (metis snd_conv)
  show "uncommitted s (snd (and_then m f s))"
  proof (cases r)
    case (Inl e)
    with m a show ?thesis by (simp add: and_then_def)
  next
    case (Inr x)
    from assms(2) [of x] have "uncommitted s' (snd (f x s'))"
      unfolding never_commits_def by blast
    with a have "uncommitted s (snd (f x s'))" by (rule uncommitted_trans)
    with m Inr show ?thesis by (simp add: and_then_def)
  qed
qed

lemma never_commits_print: "never_commits (print x)"
  by (simp add: never_commits_def print_def uncommitted_def)

lemma never_commits_execute_select: "q \<noteq> COMMIT \<Longrightarrow> never_commits (execute_select q rows)"
  by (simp add: never_commits_def execute_select_def uncommitted_def)

lemma never_commits_execute_insert: "q \<noteq> COMMIT \<Longrightarrow> never_commits (execute_insert q ins)"
  by (auto simp: never_commits_def execute_insert_def uncommitted_def split: sum.splits)

lemma never_commits_selects:
  "never_commits select_users_with_referrer"
  "never_commits select_all_users_and_some_referrers"
  "never_commits select_some_users_and_all_referrers"
  "never_commits show_users_orders"
  "never_commits show_all_users_products"
  by (simp_all add: select_users_with_referrer_def select_all_users_and_some_referrers_def
      select_some_users_and_all_referrers_def show_users_orders_def
      show_all_users_products_def never_commits_execute_select)

lemma never_commits_create_user: "never_commits (create_user tid name uname lang created rid)"
  by (simp add: create_user_def never_commits_execute_insert)

lemma never_commits_create_new_order_for_user: "never_commits (create_new_order_for_user uid)"
  by (auto simp: never_commits_def create_new_order_for_user_def uncommitted_def Let_def
      split: sum.splits)

lemma never_commits_create_new_products: "never_commits (create_new_products products_info)"
  by (auto simp: never_commits_def create_new_products_def uncommitted_def Let_def)

lemma never_commits_add_products_to_order:
  "never_commits (add_products_to_order oid product_data)"
  by (auto simp: add_products_to_order_def never_commits_execute_insert)
     (simp add: never_commits_def uncommitted_def)

lemma never_commits_main_session: "never_commits main_session"
  unfolding main_session_def
  by (intro never_commits_and_then never_commits_print never_commits_selects
      never_commits_create_user never_commits_create_new_order_for_user
      never_commits_create_new_products never_commits_add_products_to_order)

section \<open>Bulk insert of products\<close>

lemma new_ids:
  "length (map (\<lambda>k. (v::int) + 1 + int k) [0 ..< n]) = n"
  "distinct (map (\<lambda>k. (v::int) + 1 + int k) [0 ..< n])"
  "\<forall>k\<in>set (map (\<lambda>k. (v::int) + 1 + int k) [0 ..< n]). v < k \<and> k \<le> v + int n"
  by (auto simp: distinct_map inj_on_def)

lemma map_new_product:
  "length ids = length infos \<Longrightarrow>
   map Product.product_id (map (new_product t) (zip ids infos)) = ids \<and>
   map title (map (new_product t) (zip ids infos)) = map info_title infos \<and>
   map description (map (new_product t) (zip ids infos)) = map info_description infos"
  by (induction ids infos rule: list_induct2) (simp_all add: new_product_def)

lemma create_new_products_returns:
  assumes ne: "products_info \<noteq> []"
    and fits: "list_all (\<lambda>i. VARCHAR 255 (info_title i) \<and>
                        nullable (VARCHAR 3000) (info_description i)) products_info"
    and seq: "list_all (\<lambda>p. Product.product_id p \<le> products_product_id_seq (db s))
                (products (txn s))"
    and lo: "0 \<le> products_product_id_seq (db s)"
    and hi: "products_product_id_seq (db s) + int (length products_info) < 2 ^ 31"
  shows "\<exists>ids rows s'.
     create_new_products products_info s = (Inr ids, s') \<and>
     length ids = length products_info \<and>
     distinct ids \<and>
     (\<forall>k\<in>set ids. k \<notin> Product.product_id ` set (products (txn s))) \<and>
     products (txn s') = products (txn s) @ rows \<and>
     map Product.product_id rows = ids \<and>
     map title rows = map info_title products_info \<and>
     map description rows = map info_description products_info \<and>
     log s' = log s @ [INSERT_products products_info]"
proof -
  let ?last = "products_product_id_seq (db s)"
  let ?ids = "map (\<lambda>k. ?last + 1 + int k) [0 ..< length products_info]"
  let ?rows = "map (new_product (now s)) (zip ?ids products_info)"
  have fresh: "\<forall>k\<in>set ?ids. k \<notin> Product.product_id ` set (products (txn s))"
    using seq new_ids(3) [of ?last "length products_info"]
    by (force simp: list_all_iff)
  have int: "Integer (?last + int (length products_info))"
    using lo hi by (simp add: Integer_def)
  have run: "create_new_products products_info s =
    (Inr ?ids,
     s\<lparr>db := (db s)\<lparr>products_product_id_seq := ?last + int (length products_info)\<rparr>,
       txn := (txn s)\<lparr>products := products (txn s) @ ?rows\<rparr>,
       log := log s @ [INSERT_products products_info]\<rparr>)"
    using fresh by (intro create_new_products_ok ne fits int) (simp add: list_all_iff)
  have len: "length ?ids = length products_info" by simp
  note rows = map_new_product [OF len, of "now s"]
  show ?thesis
    apply (rule exI [of _ ?ids], rule exI [of _ ?rows], rule exI)
    apply (intro conjI)
            apply (rule run)
    using fresh rows new_ids(2) [of ?last "length products_info"] by simp_all
qed

lemma three_products_of_one_order:
  assumes pk: "primary_keys (txn s)"
    and ord: "ord \<in> set (orders (txn s))" "Integer (Order.order_id ord)"
    and u: "u \<in> set (users (txn s))" "telegram_id u = user_id ord"
    and none: "order_products (txn s) = []"
    and fits: "list_all (\<lambda>i. VARCHAR 255 (info_title i) \<and>
                        nullable (VARCHAR 3000) (info_description i)) [i1, i2, i3]"
    and seq: "list_all (\<lambda>p. Product.product_id p \<le> products_product_id_seq (db s))
                (products (txn s))"
    and lo: "0 \<le> products_product_id_seq (db s)"
    and hi: "products_product_id_seq (db s) + 3 < 2 ^ 31"
  shows "\<exists>ids s1 s2.
     create_new_products [i1, i2, i3] s = (Inr ids, s1) \<and>
     length ids = 3 \<and>
     add_products_to_order (Order.order_id ord) (map (\<lambda>product_id. (product_id, 1)) ids) s1 =
       (Inr (), s2) \<and>
     fst (show_all_users_products s2) =
       Inr [(Order.order_id ord, info_title i1, full_name u),
            (Order.order_id ord, info_title i2, full_name u),
            (Order.order_id ord, info_title i3, full_name u)]"
proof -
  let ?p = "products_product_id_seq (db s)"
  let ?oid = "Order.order_id ord"
  let ?ids = "[?p + 1, ?p + 2, ?p + 3]"
  let ?news = "map (new_product (now s)) (zip ?ids [i1, i2, i3])"
  let ?items = "map (\<lambda>(pid, q). \<lparr>OrderProduct.order_id = ?oid, product_id = pid, quantity = q\<rparr>)
                  [(?p + 1, 1), (?p + 2, 1), (?p + 3, 1)]"
  have old: "\<forall>p\<in>set (products (txn s)). Product.product_id p \<le> ?p"
    using seq by (simp add: list_all_iff)
  then have fresh: "?p + 1 \<notin> Product.product_id ` set (products (txn s))"
    "?p + 2 \<notin> Product.product_id ` set (products (txn s))"
    "?p + 3 \<notin> Product.product_id ` set (products (txn s))"
    by force+
  define s1 where "s1 = s\<lparr>db := (db s)\<lparr>products_product_id_seq := ?p + 3\<rparr>,
       txn := (txn s)\<lparr>products := products (txn s) @ ?news\<rparr>,
       log := log s @ [INSERT_products [i1, i2, i3]]\<rparr>"
  have r1: "create_new_products [i1, i2, i3] s = (Inr ?ids, s1)"
    using fresh fits lo hi
    by (subst create_new_products_ok)
      (simp_all add: s1_def Integer_def upt_rec [of 0] upt_rec [of 1] upt_rec [of 2]
        numeral_3_eq_3 add.commute)
  define s2 where "s2 = s1\<lparr>txn := (txn s1)\<lparr>order_products := ?items\<rparr>,
       log := log s1 @ [INSERT_order_products ?oid [(?p + 1, 1), (?p + 2, 1), (?p + 3, 1)]]\<rparr>"
  have r2: "add_products_to_order ?oid (map (\<lambda>product_id. (product_id, 1)) ?ids) s1 =
      (Inr (), s2)"
    using ord none lo hi
    by (subst add_products_to_order_ok)
      (simp_all add: s1_def s2_def Integer_def new_product_def)
  have t2: "order_products (txn s2) = ?items" "products (txn s2) = products (txn s) @ ?news"
    "orders (txn s2) = orders (txn s)" "users (txn s2) = users (txn s)"
    by (simp_all add: s2_def s1_def)
  have fp: "filter (\<lambda>p. Product.product_id p = ?p + k) (products (txn s)) = []"
    if "0 < k" for k
    using old that by (force simp: filter_empty_conv)
  have fo: "filter (\<lambda>x. Order.order_id x = ?oid) (orders (txn s)) = [ord]"
    using filter_key_distinct [of Order.order_id "orders (txn s)" ord] pk ord(1)
    by (simp add: primary_keys_def)
  have fu: "filter (\<lambda>x. telegram_id x = user_id ord) (users (txn s)) = [u]"
    using filter_key_distinct [of telegram_id "users (txn s)" u] pk u
    by (simp add: primary_keys_def)
  have rows: "all_users_products (txn s2) =
      [(?oid, info_title i1, full_name u), (?oid, info_title i2, full_name u),
       (?oid, info_title i3, full_name u)]"
    unfolding all_users_products_def t2
    by (simp add: inner_join_def fp fo fu new_product_def)
  have "fst (show_all_users_products s2) = Inr (all_users_products (txn s2))"
    by (simp add: show_all_users_products_def fst_execute_select)
  with r1 r2 rows show ?thesis by auto
qed

text \<open>
  C6 (as amended). First, for every non-empty sequence of records that fit the columns
  (title at most 255 characters, description at most 3000), in a session whose product
  sequence is at or past every product key and can still give that many values:
  \<^verbatim>\<open>create_new_products\<close> succeeds and returns exactly as many identifiers as there are
  records, all different and none in use before, and the rows it appends are, in order,
  the rows of the returned identifiers with the titles and descriptions of the records.
  Second, with an order of an existing user, unique keys and no product attached to any
  order yet: inserting three products and attaching the returned identifiers to that order
  with quantity 1 succeeds, and \<^verbatim>\<open>show_all_users_products\<close> then yields exactly three
  rows, one per title in the order of the records, all with that order's identifier and
  that user's name.
\<close>

theorem create_new_products_in_order:
  "(products_info \<noteq> [] \<and>
    list_all (\<lambda>i. VARCHAR 255 (info_title i) \<and>
                   nullable (VARCHAR 3000) (info_description i)) products_info \<and>
    list_all (\<lambda>p. Product.product_id p \<le> products_product_id_seq (db s)) (products (txn s)) \<and>
    0 \<le> products_product_id_seq (db s) \<and>
    products_product_id_seq (db s) + int (length products_info) < 2 ^ 31 \<longrightarrow>
    (\<exists>ids rows s'.
       create_new_products products_info s = (Inr ids, s') \<and>
       length ids = length products_info \<and>
       distinct ids \<and>
       (\<forall>k\<in>set ids. k \<notin> Product.product_id ` set (products (txn s))) \<and>
       products (txn s') = products (txn s) @ rows \<and>
       map Product.product_id rows = ids \<and>
       map title rows = map info_title products_info \<and>
       map description rows = map info_description products_info \<and>
       log s' = log s @ [INSERT_products products_info])) \<and>
   (primary_keys (txn s) \<and>
    ord \<in> set (orders (txn s)) \<and> Integer (Order.order_id ord) \<and>
    u \<in> set (users (txn s)) \<and> telegram_id u = user_id ord \<and>
    order_products (txn s) = [] \<and>
    list_all (\<lambda>i. VARCHAR 255 (info_title i) \<and>
                   nullable (VARCHAR 3000) (info_description i)) [i1, i2, i3] \<and>
    list_all (\<lambda>p. Product.product_id p \<le> products_product_id_seq (db s)) (products (txn s)) \<and>
    0 \<le> products_product_id_seq (db s) \<and>
    products_product_id_seq (db s) + 3 < 2 ^ 31 \<longrightarrow>
    (\<exists>ids s1 s2.
       create_new_products [i1, i2, i3] s = (Inr ids, s1) \<and>
       length ids = 3 \<and>
       add_products_to_order (Order.order_id ord) (map (\<lambda>product_id. (product_id, 1)) ids) s1 =
         (Inr (), s2) \<and>
       fst (show_all_users_products s2) =
         Inr [(Order.order_id ord, info_title i1, full_name u),
              (Order.order_id ord, info_title i2, full_name u),
              (Order.order_id ord, info_title i3, full_name u)]))"
proof (intro conjI impI)
  assume "products_info \<noteq> [] \<and>
    list_all (\<lambda>i. VARCHAR 255 (info_title i) \<and>
                   nullable (VARCHAR 3000) (info_description i)) products_info \<and>
    list_all (\<lambda>p. Product.product_id p \<le> products_product_id_seq (db s)) (products (txn s)) \<and>
    0 \<le> products_product_id_seq (db s) \<and>
    products_product_id_seq (db s) + int (length products_info) < 2 ^ 31"
  then show "\<exists>ids rows s'.
       create_new_products products_info s = (Inr ids, s') \<and>
       length ids = length products_info \<and>
       distinct ids \<and>
       (\<forall>k\<in>set ids. k \<notin> Product.product_id ` set (products (txn s))) \<and>
       products (txn s') = products (txn s) @ rows \<and>
       map Product.product_id rows = ids \<and>
       map title rows = map info_title products_info \<and>
       map description rows = map info_description products_info \<and>
       log s' = log s @ [INSERT_products products_info]"
    by (intro create_new_products_returns) blast+
next
  assume "primary_keys (txn s) \<and>
    ord \<in> set (orders (txn s)) \<and> Integer (Order.order_id ord) \<and>
    u \<in> set (users (txn s)) \<and> telegram_id u = user_id ord \<and>
    order_products (txn s) = [] \<and>
    list_all (\<lambda>i. VARCHAR 255 (info_title i) \<and>
                   nullable (VARCHAR 3000) (info_description i)) [i1, i2, i3] \<and>
    list_all (\<lambda>p. Product.product_id p \<le> products_product_id_seq (db s)) (products (txn s)) \<and>
    0 \<le> products_product_id_seq (db s) \<and>
    products_product_id_seq (db s) + 3 < 2 ^ 31"
  then show "\<exists>ids s1 s2.
       create_new_products [i1, i2, i3] s = (Inr ids, s1) \<and>
       length ids = 3 \<and>
       add_products_to_order (Order.order_id ord) (map (\<lambda>product_id. (product_id, 1)) ids) s1 =
         (Inr (), s2) \<and>
       fst (show_all_users_products s2) =
         Inr [(Order.order_id ord, info_title i1, full_name u),
              (Order.order_id ord, info_title i2, full_name u),
              (Order.order_id ord, info_title i3, full_name u)]"
    by (intro three_products_of_one_order) blast+
qed

theorem create_new_products_in_order_witness:
  "(\<exists>ids rows s'.
      create_new_products three_products session_with_order = (Inr ids, s') \<and>
      length ids = length three_products \<and>
      products (txn s') = products (txn session_with_order) @ rows \<and>
      map Product.product_id rows = ids \<and>
      map title rows = map info_title three_products) \<and>
   (\<exists>ids s1 s2.
      create_new_products three_products session_with_order = (Inr ids, s1) \<and>
      length ids = 3 \<and>
      add_products_to_order 1 (map (\<lambda>product_id. (product_id, 1)) ids) s1 = (Inr (), s2) \<and>
      fst (show_all_users_products s2) =
        Inr [(1, ''Product 1'', ''John Doe''), (1, ''Product 2'', ''John Doe''),
             (1, ''Product 3'', ''John Doe'')])"
proof -
  let ?ord = "\<lparr>Order.order_id = 1, user_id = 1, Order.created_at = Some noon\<rparr>"
  let ?i1 = "\<lparr>info_title = ''Product 1'', info_description = Some ''Description 1''\<rparr>"
  let ?i2 = "\<lparr>info_title = ''Product 2'', info_description = Some ''Description 2''\<rparr>"
  let ?i3 = "\<lparr>info_title = ''Product 3'', info_description = Some ''Description 3''\<rparr>"
  note t = create_new_products_in_order [of three_products session_with_order ?ord user_1
      ?i1 ?i2 ?i3]
  have h1: "three_products \<noteq> [] \<and>
    list_all (\<lambda>i. VARCHAR 255 (info_title i) \<and>
                   nullable (VARCHAR 3000) (info_description i)) three_products \<and>
    list_all (\<lambda>p. Product.product_id p \<le> products_product_id_seq (db session_with_order))
      (products (txn session_with_order)) \<and>
    0 \<le> products_product_id_seq (db session_with_order) \<and>
    products_product_id_seq (db session_with_order) + int (length three_products) < 2 ^ 31"
    by (simp add: three_products_def session_with_order_def empty_database_def VARCHAR_def
        nullable_def)
  have h2: "primary_keys (txn session_with_order) \<and>
    ?ord \<in> set (orders (txn session_with_order)) \<and> Integer (Order.order_id ?ord) \<and>
    user_1 \<in> set (users (txn session_with_order)) \<and> telegram_id user_1 = user_id ?ord \<and>
    order_products (txn session_with_order) = [] \<and>
    list_all (\<lambda>i. VARCHAR 255 (info_title i) \<and>
                   nullable (VARCHAR 3000) (info_description i)) [?i1, ?i2, ?i3] \<and>
    list_all (\<lambda>p. Product.product_id p \<le> products_product_id_seq (db session_with_order))
      (products (txn session_with_order)) \<and>
    0 \<le> products_product_id_seq (db session_with_order) \<and>
    products_product_id_seq (db session_with_order) + 3 < 2 ^ 31"
    by (simp add: session_with_order_def empty_database_def primary_keys_def user_1_def
        user_2_def VARCHAR_def Integer_def nullable_def)
  from t h1 have c1: "\<exists>ids rows s'.
      create_new_products three_products session_with_order = (Inr ids, s') \<and>
      length ids = length three_products \<and>
      products (txn s') = products (txn session_with_order) @ rows \<and>
      map Product.product_id rows = ids \<and>
      map title rows = map info_title three_products"
    by blast
  from t h2 have "\<exists>ids s1 s2.
       create_new_products [?i1, ?i2, ?i3] session_with_order = (Inr ids, s1) \<and>
       length ids = 3 \<and>
       add_products_to_order (Order.order_id ?ord) (map (\<lambda>product_id. (product_id, 1)) ids) s1 =
         (Inr (), s2) \<and>
       fst (show_all_users_products s2) =
         Inr [(Order.order_id ?ord, info_title ?i1, full_name user_1),
              (Order.order_id ?ord, info_title ?i2, full_name user_1),
              (Order.order_id ?ord, info_title ?i3, full_name user_1)]"
    by blast
  then have c2: "\<exists>ids s1 s2.
      create_new_products three_products session_with_order = (Inr ids, s1) \<and>
      length ids = 3 \<and>
      add_products_to_order 1 (map (\<lambda>product_id. (product_id, 1)) ids) s1 = (Inr (), s2) \<and>
      fst (show_all_users_products s2) =
        Inr [(1, ''Product 1'', ''John Doe''), (1, ''Product 2'', ''John Doe''),
             (1, ''Product 3'', ''John Doe'')]"
    by (simp add: three_products_def user_1_def)
  from c1 c2 show ?thesis by (rule conjI)
qed

text \<open>
  Against C6 as stated: an empty sequence is not answered with no identifiers, and a
  record whose title has 256 characters is not inserted. Both statements are refused.
\<close>

theorem create_new_products_refused:
  "fst (create_new_products [] (session_pool empty_database noon)) = Inl NotNullViolation \<and>
   fst (create_new_products
          [\<lparr>info_title = replicate 256 (CHR ''a''), info_description = None\<rparr>]
          (session_pool empty_database noon)) = Inl StringDataRightTruncation"
  by (simp add: create_new_products_def session_pool_def empty_database_def Integer_def
      VARCHAR_def nullable_def Let_def)


section \<open>The statements of every run\<close>

lemma logs_and_then:
  assumes m: "logs P m A Q" and f: "\<And>x. logs (Q x) (f x) B R"
  shows "logs P (and_then m f) (A @ B) R"
  unfolding logs_def
proof (intro allI impI)
  fix s assume P: "P s"
  obtain r s' where ms: "m s = (r, s')" by (cases "m s")
  show "case and_then m f s of
          (Inl e, s') \<Rightarrow> \<exists>l. log s' = log s @ l \<and> prefix l (A @ B)
        | (Inr x, s') \<Rightarrow> log s' = log s @ (A @ B) \<and> R x s'"
  proof (cases r)
    case (Inl e)
    with m P ms obtain l where "log s' = log s @ l" "prefix l A"
      unfolding logs_def by fastforce
    then have "log s' = log s @ l \<and> prefix l (A @ B)"
      by simp
    with ms Inl show ?thesis by (auto simp: and_then_def)
  next
    case (Inr x)
    with m P ms have a: "log s' = log s @ A" and Q: "Q x s'"
      unfolding logs_def by fastforce+
    obtain r' s'' where fs: "f x s' = (r', s'')" by (cases "f x s'")
    have at: "and_then m f s = (r', s'')"
      using ms Inr fs by (simp add: and_then_def)
    show ?thesis
    proof (cases r')
      case (Inl e)
      with f [of x] Q fs obtain l where "log s'' = log s' @ l" "prefix l B"
        unfolding logs_def by fastforce
      then have "log s'' = log s @ (A @ l) \<and> prefix (A @ l) (A @ B)"
        by (simp add: a)
      with at Inl show ?thesis by auto
    next
      case (Inr y)
      with f [of x] Q fs have "log s'' = log s' @ B" "R y s''"
        unfolding logs_def by fastforce+
      with at Inr a show ?thesis by simp
    qed
  qed
qed

lemma logs_assume: "(c \<Longrightarrow> logs P m L Q) \<Longrightarrow> logs (\<lambda>s. c \<and> P s) m L Q"
  by (auto simp: logs_def)

lemma logs_print: "logs (seqs_at v w) (print x) [] (\<lambda>_. seqs_at v w)"
  by (simp add: logs_def print_def seqs_at_def)

lemma logs_execute_select:
  "logs (seqs_at v w) (execute_select q rows) [q] (\<lambda>_. seqs_at v w)"
  by (simp add: logs_def execute_select_def seqs_at_def)

lemma logs_execute_insert:
  "logs (seqs_at v w) (execute_insert q ins) [q] (\<lambda>_. seqs_at v w)"
  by (auto simp: logs_def execute_insert_def seqs_at_def split: sum.splits)

lemma logs_create_user:
  "logs (seqs_at v w) (create_user tid name uname lang created rid)
     [INSERT_users tid name uname (Some lang) (Some (timestamp_of_date created)) rid]
     (\<lambda>_. seqs_at v w)"
  unfolding create_user_def by (rule logs_execute_insert)

lemma logs_create_new_order_for_user:
  "logs (seqs_at v w) (create_new_order_for_user uid) [INSERT_orders uid]
     (\<lambda>x s. x = v + 1 \<and> seqs_at (v + 1) w s)"
  by (auto simp: logs_def create_new_order_for_user_def seqs_at_def Let_def split: sum.splits)

lemma logs_create_new_products:
  "logs (seqs_at v w) (create_new_products products_info) [INSERT_products products_info]
     (\<lambda>ids s. ids = map (\<lambda>k. w + 1 + int k) [0 ..< length products_info] \<and>
               seqs_at v (w + int (length products_info)) s)"
  by (auto simp: logs_def create_new_products_def seqs_at_def Let_def)

lemma logs_add_products_to_order:
  "logs (seqs_at v w) (add_products_to_order oid product_data)
     [INSERT_order_products oid product_data] (\<lambda>_. seqs_at v w)"
proof (cases "product_data = []")
  case True
  then show ?thesis by (simp add: logs_def add_products_to_order_def)
next
  case False
  then show ?thesis by (simp add: add_products_to_order_def logs_execute_insert)
qed

lemma logs_main_session:
  "logs (seqs_at v w) main_session (main_statements (v + 1) [w + 1, w + 2, w + 3])
     (\<lambda>_. seqs_at (v + 1) (w + 3))"
proof -
  let ?i1 = "INSERT_users 1 ''John Doe'' (Some ''johnny'') (Some ''en'')
        (Some (timestamp_of_date (Date 2020 1 1))) None"
  let ?i2 = "INSERT_users 2 ''Jane Doe'' (Some ''jane'') (Some ''en'')
        (Some (timestamp_of_date (Date 2020 1 2))) (Some 1)"
  let ?infos = "[\<lparr>info_title = ''Product 1'', info_description = Some ''Description 1''\<rparr>,
         \<lparr>info_title = ''Product 2'', info_description = Some ''Description 2''\<rparr>,
         \<lparr>info_title = ''Product 3'', info_description = Some ''Description 3''\<rparr>]"
  let ?ids = "map (\<lambda>k. w + 1 + int k) [0 ..< length ?infos]"
  have ids: "?ids = [w + 1, w + 2, w + 3]"
    by (simp add: upt_rec [of 0] upt_rec [of 1] upt_rec [of 2] numeral_3_eq_3 add.commute)
  have E: "main_statements (v + 1) [w + 1, w + 2, w + 3] =
      [?i1] @ [?i2] @ [SELECT_users_with_referrer] @ [] @
      [SELECT_all_users_and_some_referrers] @ [] @
      [SELECT_some_users_and_all_referrers] @ [] @
      [INSERT_orders 1] @ [SELECT_users_orders] @ [] @
      [INSERT_products ?infos] @ [] @
      [INSERT_order_products (v + 1) (map (\<lambda>product_id. (product_id, 1)) ?ids)] @
      [SELECT_all_users_products] @ []"
    unfolding ids by (simp add: main_statements_def timestamp_of_date_def)
  have w3: "w + int (length ?infos) = w + 3" by simp
  show ?thesis
    unfolding E main_session_def select_users_with_referrer_def
      select_all_users_and_some_referrers_def select_some_users_and_all_referrers_def
      show_users_orders_def show_all_users_products_def
    apply (rule logs_and_then, rule logs_create_user)
    apply (rule logs_and_then, rule logs_create_user)
    apply (rule logs_and_then, rule logs_execute_select)
    apply (rule logs_and_then, rule logs_print)
    apply (rule logs_and_then, rule logs_execute_select)
    apply (rule logs_and_then, rule logs_print)
    apply (rule logs_and_then, rule logs_execute_select)
    apply (rule logs_and_then, rule logs_print)
    apply (rule logs_and_then, rule logs_create_new_order_for_user)
    apply (rule logs_assume, hypsubst)
    apply (rule logs_and_then, rule logs_execute_select)
    apply (rule logs_and_then, rule logs_print)
    apply (rule logs_and_then, rule logs_create_new_products)
    apply (rule logs_assume, hypsubst)
    apply (rule logs_and_then, rule logs_print)
    apply (rule logs_and_then, rule logs_add_products_to_order)
    apply (rule logs_and_then, rule logs_execute_select)
    apply (unfold w3)
    apply (rule logs_print)
    done
qed

lemma main_statements_prefix:
  "prefix (fst (snd (main d t)))
     (main_statements (orders_order_id_seq d + 1)
        [products_product_id_seq d + 1, products_product_id_seq d + 2,
         products_product_id_seq d + 3]) \<and>
   (fst (main d t) = Inr () \<longrightarrow>
      fst (snd (main d t)) =
        main_statements (orders_order_id_seq d + 1)
          [products_product_id_seq d + 1, products_product_id_seq d + 2,
           products_product_id_seq d + 3])"
proof -
  let ?E = "main_statements (orders_order_id_seq d + 1)
        [products_product_id_seq d + 1, products_product_id_seq d + 2,
         products_product_id_seq d + 3]"
  obtain r s where run: "main_session (session_pool d t) = (r, s)"
    by (cases "main_session (session_pool d t)")
  have m: "main d t = (r, log s, out s, db s)"
    by (simp add: main_def run close_def)
  have P: "seqs_at (orders_order_id_seq d) (products_product_id_seq d) (session_pool d t)"
    by (simp add: seqs_at_def session_pool_def)
  from logs_main_session [of "orders_order_id_seq d" "products_product_id_seq d"] P run
  have "case r of Inl e \<Rightarrow> \<exists>l. log s = log (session_pool d t) @ l \<and> prefix l ?E
                | Inr x \<Rightarrow> log s = log (session_pool d t) @ ?E"
    unfolding logs_def by (fastforce split: sum.splits)
  then show ?thesis
    by (cases r) (auto simp: m session_pool_def)
qed

section \<open>The driver\<close>

text \<open>
  C8. On every database, what the driver gives its session is a prefix of this sequence,
  and all of it when the driver completes: the insert of user 1 (John Doe, johnny, en,
  2020-01-01, no referrer); the insert of user 2 (Jane Doe, jane, en, 2020-01-02,
  referrer 1); the three referrer joins; the insert of an order for user 1; the join of
  orders and users; the insert of the products titled Product 1 to 3 with Description 1 to
  3; the insert of one row of \<^verbatim>\<open>order_products\<close> per returned product identifier, for
  the order just created, each with quantity 1; and the join of orders, products and
  users. On a consistent database that has no user 1 and no user 2 and whose sequences are
  not exhausted the driver does complete, and it prints the result of each join and the
  product identifiers, in that order.
\<close>

theorem main_sequence:
  "prefix (fst (snd (main d t)))
     (main_statements (orders_order_id_seq d + 1)
        [products_product_id_seq d + 1, products_product_id_seq d + 2,
         products_product_id_seq d + 3]) \<and>
   (fst (main d t) = Inr () \<longrightarrow>
      fst (snd (main d t)) =
        main_statements (orders_order_id_seq d + 1)
          [products_product_id_seq d + 1, products_product_id_seq d + 2,
           products_product_id_seq d + 3]) \<and>
   (consistent d \<and>
    1 \<notin> telegram_id ` set (users (stored d)) \<and>
    2 \<notin> telegram_id ` set (users (stored d)) \<and>
    orders_order_id_seq d + 1 < 2 ^ 31 \<and>
    products_product_id_seq d + 3 < 2 ^ 31 \<longrightarrow>
    main d t =
      (Inr (),
       [INSERT_users 1 ''John Doe'' (Some ''johnny'') (Some ''en'')
          (Some (Timestamp (Date 2020 1 1) 0)) None,
        INSERT_users 2 ''Jane Doe'' (Some ''jane'') (Some ''en'')
          (Some (Timestamp (Date 2020 1 2) 0)) (Some 1),
        SELECT_users_with_referrer,
        SELECT_all_users_and_some_referrers,
        SELECT_some_users_and_all_referrers,
        INSERT_orders 1,
        SELECT_users_orders,
        INSERT_products
          [\<lparr>info_title = ''Product 1'', info_description = Some ''Description 1''\<rparr>,
           \<lparr>info_title = ''Product 2'', info_description = Some ''Description 2''\<rparr>,
           \<lparr>info_title = ''Product 3'', info_description = Some ''Description 3''\<rparr>],
        INSERT_order_products (orders_order_id_seq d + 1)
          [(products_product_id_seq d + 1, 1), (products_product_id_seq d + 2, 1),
           (products_product_id_seq d + 3, 1)],
        SELECT_all_users_products],
       [Users_with_referrer (users_with_referrer (after_main d t)),
        All_users_and_their_referrers (all_users_and_some_referrers (after_main d t)),
        Some_users_and_all_their_referrers (some_users_and_all_referrers (after_main d t)),
        Users_orders (users_orders (after_main d t)),
        Product_ids [products_product_id_seq d + 1, products_product_id_seq d + 2,
                     products_product_id_seq d + 3],
        Users_products (all_users_products (after_main d t))],
       d\<lparr>orders_order_id_seq := orders_order_id_seq d + 1,
         products_product_id_seq := products_product_id_seq d + 3\<rparr>))"
proof -
  have "main d t =
      (Inr (), main_statements (orders_order_id_seq d + 1)
        [products_product_id_seq d + 1, products_product_id_seq d + 2,
         products_product_id_seq d + 3],
       [Users_with_referrer (users_with_referrer (after_main d t)),
        All_users_and_their_referrers (all_users_and_some_referrers (after_main d t)),
        Some_users_and_all_their_referrers (some_users_and_all_referrers (after_main d t)),
        Users_orders (users_orders (after_main d t)),
        Product_ids [products_product_id_seq d + 1, products_product_id_seq d + 2,
                     products_product_id_seq d + 3],
        Users_products (all_users_products (after_main d t))],
       d\<lparr>orders_order_id_seq := orders_order_id_seq d + 1,
         products_product_id_seq := products_product_id_seq d + 3\<rparr>)"
    if "consistent d" "1 \<notin> telegram_id ` set (users (stored d))"
      "2 \<notin> telegram_id ` set (users (stored d))" "orders_order_id_seq d + 1 < 2 ^ 31"
      "products_product_id_seq d + 3 < 2 ^ 31"
    unfolding main_def main_session_runs [OF that]
    by (simp add: close_def three_products_def main_statements_def)
  then show ?thesis
    using main_statements_prefix [of d t]
    by (simp add: main_statements_def)
qed

lemma consistent_empty_database: "consistent empty_database"
  by (simp add: consistent_def empty_database_def primary_keys_def foreign_keys_def)

lemma after_main_empty_database: "after_main empty_database t = scenario_tables t"
  by (simp add: after_main_def empty_database_def scenario_tables_def Let_def)

lemma scenario_rows:
  "users_with_referrer (scenario_tables t) = [(''Jane Doe'', ''John Doe'')]"
  "all_users_and_some_referrers (scenario_tables t) =
     [(''John Doe'', None), (''Jane Doe'', Some ''John Doe'')]"
  "some_users_and_all_referrers (scenario_tables t) =
     [(Some ''Jane Doe'', ''John Doe''), (None, ''Jane Doe'')]"
  "users_orders (scenario_tables t) = [(1, ''John Doe'')]"
  "all_users_products (scenario_tables t) =
     [(1, ''Product 1'', ''John Doe''), (1, ''Product 2'', ''John Doe''),
      (1, ''Product 3'', ''John Doe'')]"
  by (simp_all add: users_with_referrer_def all_users_and_some_referrers_def
      some_users_and_all_referrers_def users_orders_def all_users_products_def
      inner_join_def left_outer_join_def scenario_tables_def three_products_def
      new_product_def user_1_def user_2_def)

theorem main_sequence_witness:
  "consistent empty_database \<and>
   fst (main empty_database noon) = Inr () \<and>
   main empty_database noon =
    (Inr (),
     [INSERT_users 1 ''John Doe'' (Some ''johnny'') (Some ''en'')
        (Some (Timestamp (Date 2020 1 1) 0)) None,
      INSERT_users 2 ''Jane Doe'' (Some ''jane'') (Some ''en'')
        (Some (Timestamp (Date 2020 1 2) 0)) (Some 1),
      SELECT_users_with_referrer,
      SELECT_all_users_and_some_referrers,
      SELECT_some_users_and_all_referrers,
      INSERT_orders 1,
      SELECT_users_orders,
      INSERT_products
        [\<lparr>info_title = ''Product 1'', info_description = Some ''Description 1''\<rparr>,
         \<lparr>info_title = ''Product 2'', info_description = Some ''Description 2''\<rparr>,
         \<lparr>info_title = ''Product 3'', info_description = Some ''Description 3''\<rparr>],
      INSERT_order_products 1 [(1, 1), (2, 1), (3, 1)],
      SELECT_all_users_products],
     [Users_with_referrer [(''Jane Doe'', ''John Doe'')],
      All_users_and_their_referrers [(''John Doe'', None), (''Jane Doe'', Some ''John Doe'')],
      Some_users_and_all_their_referrers
        [(Some ''Jane Doe'', ''John Doe''), (None, ''Jane Doe'')],
      Users_orders [(1, ''John Doe'')],
      Product_ids [1, 2, 3],
      Users_products [(1, ''Product 1'', ''John Doe''), (1, ''Product 2'', ''John Doe''),
                      (1, ''Product 3'', ''John Doe'')]],
     empty_database\<lparr>orders_order_id_seq := 1, products_product_id_seq := 3\<rparr>)"
proof -
  have h: "consistent empty_database \<and>
    1 \<notin> telegram_id ` set (users (stored empty_database)) \<and>
    2 \<notin> telegram_id ` set (users (stored empty_database)) \<and>
    orders_order_id_seq empty_database + 1 < 2 ^ 31 \<and>
    products_product_id_seq empty_database + 3 < 2 ^ 31"
    using consistent_empty_database by (simp add: empty_database_def)
  with main_sequence [of empty_database noon]
  have run: "main empty_database noon =
      (Inr (),
       [INSERT_users 1 ''John Doe'' (Some ''johnny'') (Some ''en'')
          (Some (Timestamp (Date 2020 1 1) 0)) None,
        INSERT_users 2 ''Jane Doe'' (Some ''jane'') (Some ''en'')
          (Some (Timestamp (Date 2020 1 2) 0)) (Some 1),
        SELECT_users_with_referrer,
        SELECT_all_users_and_some_referrers,
        SELECT_some_users_and_all_referrers,
        INSERT_orders 1,
        SELECT_users_orders,
        INSERT_products
          [\<lparr>info_title = ''Product 1'', info_description = Some ''Description 1''\<rparr>,
           \<lparr>info_title = ''Product 2'', info_description = Some ''Description 2''\<rparr>,
           \<lparr>info_title = ''Product 3'', info_description = Some ''Description 3''\<rparr>],
        INSERT_order_products (orders_order_id_seq empty_database + 1)
          [(products_product_id_seq empty_database + 1, 1),
           (products_product_id_seq empty_database + 2, 1),
           (products_product_id_seq empty_database + 3, 1)],
        SELECT_all_users_products],
       [Users_with_referrer (users_with_referrer (after_main empty_database noon)),
        All_users_and_their_referrers
          (all_users_and_some_referrers (after_main empty_database noon)),
        Some_users_and_all_their_referrers
          (some_users_and_all_referrers (after_main empty_database noon)),
        Users_orders (users_orders (after_main empty_database noon)),
        Product_ids [products_product_id_seq empty_database + 1,
                     products_product_id_seq empty_database + 2,
                     products_product_id_seq empty_database + 3],
        Users_products (all_users_products (after_main empty_database noon))],
       empty_database\<lparr>orders_order_id_seq := orders_order_id_seq empty_database + 1,
         products_product_id_seq := products_product_id_seq empty_database + 3\<rparr>)"
    by blast
  show ?thesis
    unfolding run after_main_empty_database scenario_rows
    using h by (simp add: empty_database_def)
qed

lemma set_all_users_products:
  "set (all_users_products t) =
     {(Order.order_id ord, title p, full_name u) | item p ord u.
        item \<in> set (order_products t) \<and> p \<in> set (products t) \<and>
        ord \<in> set (orders t) \<and> u \<in> set (users t) \<and>
        Product.product_id p = OrderProduct.product_id item \<and>
        Order.order_id ord = OrderProduct.order_id item \<and>
        telegram_id u = user_id ord}"
  unfolding all_users_products_def set_map set_inner_join
  by (auto simp: image_iff) force

lemma set_users_orders:
  "set (users_orders t) =
     {(Order.order_id ord, full_name u) | ord u.
        ord \<in> set (orders t) \<and> u \<in> set (users t) \<and> telegram_id u = user_id ord}"
  unfolding users_orders_def set_map set_inner_join by force

lemma set_users_with_referrer:
  "set (users_with_referrer t) =
     {(full_name u, full_name r) | u r.
        u \<in> set (users t) \<and> r \<in> set (users t) \<and> referrer_id u = Some (telegram_id r)}"
  unfolding users_with_referrer_def set_map set_inner_join by force

lemma after_main_observed:
  "(''Jane Doe'', ''John Doe'') \<in> set (users_with_referrer (after_main d t))"
  "(orders_order_id_seq d + 1, ''John Doe'') \<in> set (users_orders (after_main d t))"
  "(orders_order_id_seq d + 1, ''Product 1'', ''John Doe'') \<in> set (all_users_products (after_main d t))"
  "(orders_order_id_seq d + 1, ''Product 2'', ''John Doe'') \<in> set (all_users_products (after_main d t))"
  "(orders_order_id_seq d + 1, ''Product 3'', ''John Doe'') \<in> set (all_users_products (after_main d t))"
proof -
  let ?t = "after_main d t"
  let ?o = "orders_order_id_seq d + 1" and ?p = "products_product_id_seq d"
  let ?ord = "\<lparr>Order.order_id = ?o, user_id = 1, Order.created_at = Some t\<rparr>"
  have us: "user_1 \<in> set (users ?t)" "user_2 \<in> set (users ?t)"
    and ord: "?ord \<in> set (orders ?t)"
    by (simp_all add: after_main_def Let_def)
  have name: "full_name user_1 = ''John Doe''" "full_name user_2 = ''Jane Doe''"
    "telegram_id user_1 = 1" "referrer_id user_2 = Some 1"
    by (simp_all add: user_1_def user_2_def)
  show "(''Jane Doe'', ''John Doe'') \<in> set (users_with_referrer ?t)"
    unfolding set_users_with_referrer using us name by force
  show "(?o, ''John Doe'') \<in> set (users_orders ?t)"
    unfolding set_users_orders using us(1) ord name by force
  have row: "(?o, info_title i, ''John Doe'') \<in> set (all_users_products ?t)"
    if "(k, i) \<in> set (zip [?p + 1, ?p + 2, ?p + 3] three_products)" for k i
  proof -
    have p: "new_product t (k, i) \<in> set (products ?t)"
      using that by (simp add: after_main_def Let_def del: zip_Cons_Cons)
    have "k \<in> {?p + 1, ?p + 2, ?p + 3}"
      using that by (auto simp: three_products_def)
    then have item: "\<lparr>OrderProduct.order_id = ?o, product_id = k, quantity = 1\<rparr>
        \<in> set (order_products ?t)"
      by (auto simp: after_main_def Let_def)
    have "(Order.order_id ?ord, title (new_product t (k, i)), full_name user_1)
        \<in> set (all_users_products ?t)"
      unfolding set_all_users_products
      using item p ord us(1) name by (force simp: new_product_def)
    then show ?thesis by (simp add: name new_product_def)
  qed
  show "(?o, ''Product 1'', ''John Doe'') \<in> set (all_users_products ?t)"
    using row [of "?p + 1" "\<lparr>info_title = ''Product 1'', info_description = Some ''Description 1''\<rparr>"]
    by (simp add: three_products_def)
  show "(?o, ''Product 2'', ''John Doe'') \<in> set (all_users_products ?t)"
    using row [of "?p + 2" "\<lparr>info_title = ''Product 2'', info_description = Some ''Description 2''\<rparr>"]
    by (simp add: three_products_def)
  show "(?o, ''Product 3'', ''John Doe'') \<in> set (all_users_products ?t)"
    using row [of "?p + 3" "\<lparr>info_title = ''Product 3'', info_description = Some ''Description 3''\<rparr>"]
    by (simp add: three_products_def)
qed

text \<open>
  C10 (as amended). Whatever the database and however far the driver gets, it gives its
  session no \<^verbatim>\<open>COMMIT\<close>, and when the session is left the stored rows of all four tables
  are the rows found at the start; the sequences never go back. When the driver completes
  (on a consistent database without users 1 and 2), its selects show the rows it inserted
  in that same session, and the database it leaves differs from the one it found only in
  the two sequences, advanced by one and by three.
\<close>

theorem main_commits_nothing:
  "(COMMIT \<notin> set (fst (snd (main d t))) \<and>
    stored (snd (snd (snd (main d t)))) = stored d \<and>
    orders_order_id_seq d \<le> orders_order_id_seq (snd (snd (snd (main d t)))) \<and>
    products_product_id_seq d \<le> products_product_id_seq (snd (snd (snd (main d t))))) \<and>
   (consistent d \<and>
    1 \<notin> telegram_id ` set (users (stored d)) \<and>
    2 \<notin> telegram_id ` set (users (stored d)) \<and>
    orders_order_id_seq d + 1 < 2 ^ 31 \<and>
    products_product_id_seq d + 3 < 2 ^ 31 \<longrightarrow>
    (\<exists>lg r1 r2 r3 r4 ids r5.
       main d t =
         (Inr (), lg,
          [Users_with_referrer r1, All_users_and_their_referrers r2,
           Some_users_and_all_their_referrers r3, Users_orders r4, Product_ids ids,
           Users_products r5],
          d\<lparr>orders_order_id_seq := orders_order_id_seq d + 1,
            products_product_id_seq := products_product_id_seq d + 3\<rparr>) \<and>
       (''Jane Doe'', ''John Doe'') \<in> set r1 \<and>
       (orders_order_id_seq d + 1, ''John Doe'') \<in> set r4 \<and>
       (orders_order_id_seq d + 1, ''Product 1'', ''John Doe'') \<in> set r5 \<and>
       (orders_order_id_seq d + 1, ''Product 2'', ''John Doe'') \<in> set r5 \<and>
       (orders_order_id_seq d + 1, ''Product 3'', ''John Doe'') \<in> set r5))"
proof (intro conjI impI)
  obtain r s where run: "main_session (session_pool d t) = (r, s)"
    by (cases "main_session (session_pool d t)")
  have "uncommitted (session_pool d t) (snd (main_session (session_pool d t)))"
    using never_commits_main_session unfolding never_commits_def by blast
  then have u: "uncommitted (session_pool d t) s" by (simp add: run)
  have m: "main d t = (r, log s, out s, db s)"
    by (simp add: main_def run close_def)
  show "COMMIT \<notin> set (fst (snd (main d t)))"
    using u by (simp add: m uncommitted_def session_pool_def)
  show "stored (snd (snd (snd (main d t)))) = stored d"
    using u by (simp add: m uncommitted_def session_pool_def)
  show "orders_order_id_seq d \<le> orders_order_id_seq (snd (snd (snd (main d t))))"
    using u by (simp add: m uncommitted_def session_pool_def)
  show "products_product_id_seq d \<le> products_product_id_seq (snd (snd (snd (main d t))))"
    using u by (simp add: m uncommitted_def session_pool_def)
next
  assume "consistent d \<and>
    1 \<notin> telegram_id ` set (users (stored d)) \<and>
    2 \<notin> telegram_id ` set (users (stored d)) \<and>
    orders_order_id_seq d + 1 < 2 ^ 31 \<and>
    products_product_id_seq d + 3 < 2 ^ 31"
  then have h: "consistent d" "1 \<notin> telegram_id ` set (users (stored d))"
    "2 \<notin> telegram_id ` set (users (stored d))" "orders_order_id_seq d + 1 < 2 ^ 31"
    "products_product_id_seq d + 3 < 2 ^ 31"
    by blast+
  show "\<exists>lg r1 r2 r3 r4 ids r5.
       main d t =
         (Inr (), lg,
          [Users_with_referrer r1, All_users_and_their_referrers r2,
           Some_users_and_all_their_referrers r3, Users_orders r4, Product_ids ids,
           Users_products r5],
          d\<lparr>orders_order_id_seq := orders_order_id_seq d + 1,
            products_product_id_seq := products_product_id_seq d + 3\<rparr>) \<and>
       (''Jane Doe'', ''John Doe'') \<in> set r1 \<and>
       (orders_order_id_seq d + 1, ''John Doe'') \<in> set r4 \<and>
       (orders_order_id_seq d + 1, ''Product 1'', ''John Doe'') \<in> set r5 \<and>
       (orders_order_id_seq d + 1, ''Product 2'', ''John Doe'') \<in> set r5 \<and>
       (orders_order_id_seq d + 1, ''Product 3'', ''John Doe'') \<in> set r5"
    unfolding main_def main_session_runs [OF h]
    using after_main_observed [of d t] by (simp add: close_def)
qed

theorem main_commits_nothing_witness:
  "COMMIT \<notin> set (fst (snd (main empty_database noon))) \<and>
   stored (snd (snd (snd (main empty_database noon)))) = stored empty_database \<and>
   consistent empty_database \<and>
   (\<exists>lg r1 r2 r3 r4 ids r5.
       main empty_database noon =
         (Inr (), lg,
          [Users_with_referrer r1, All_users_and_their_referrers r2,
           Some_users_and_all_their_referrers r3, Users_orders r4, Product_ids ids,
           Users_products r5],
          empty_database\<lparr>orders_order_id_seq := 1, products_product_id_seq := 3\<rparr>) \<and>
       (1, ''Product 1'', ''John Doe'') \<in> set r5)"
proof -
  note t = main_commits_nothing [of empty_database noon]
  have h: "consistent empty_database \<and>
    1 \<notin> telegram_id ` set (users (stored empty_database)) \<and>
    2 \<notin> telegram_id ` set (users (stored empty_database)) \<and>
    orders_order_id_seq empty_database + 1 < 2 ^ 31 \<and>
    products_product_id_seq empty_database + 3 < 2 ^ 31"
    using consistent_empty_database by (simp add: empty_database_def)
  from t h have "\<exists>lg r1 r2 r3 r4 ids r5.
       main empty_database noon =
         (Inr (), lg,
          [Users_with_referrer r1, All_users_and_their_referrers r2,
           Some_users_and_all_their_referrers r3, Users_orders r4, Product_ids ids,
           Users_products r5],
          empty_database\<lparr>orders_order_id_seq := orders_order_id_seq empty_database + 1,
            products_product_id_seq := products_product_id_seq empty_database + 3\<rparr>) \<and>
       (orders_order_id_seq empty_database + 1, ''Product 1'', ''John Doe'') \<in> set r5"
    by blast
  then have "\<exists>lg r1 r2 r3 r4 ids r5.
       main empty_database noon =
         (Inr (), lg,
          [Users_with_referrer r1, All_users_and_their_referrers r2,
           Some_users_and_all_their_referrers r3, Users_orders r4, Product_ids ids,
           Users_products r5],
          empty_database\<lparr>orders_order_id_seq := 1, products_product_id_seq := 3\<rparr>) \<and>
       (1, ''Product 1'', ''John Doe'') \<in> set r5"
    by (simp add: empty_database_def)
  with t h show ?thesis by blast
qed

text \<open>
  Against C10 as stated: the database after a run on the empty database is not the empty
  database. The two sequences have advanced.
\<close>

theorem main_advances_sequences:
  "snd (snd (snd (main empty_database noon))) =
     empty_database\<lparr>orders_order_id_seq := 1, products_product_id_seq := 3\<rparr> \<and>
   snd (snd (snd (main empty_database noon))) \<noteq> empty_database"
proof -
  have h: "1 \<notin> telegram_id ` set (users (stored empty_database))"
    "2 \<notin> telegram_id ` set (users (stored empty_database))"
    "orders_order_id_seq empty_database + 1 < 2 ^ 31"
    "products_product_id_seq empty_database + 3 < 2 ^ 31"
    by (simp_all add: empty_database_def)
  show ?thesis
    unfolding main_def main_session_runs [OF consistent_empty_database h]
    by (simp add: close_def empty_database_def)
qed

end
